theory Spec2Isabelle
  imports Complex_Main "HOL-Library.AList" "HOL-Library.Multiset" "HOL-Library.Word"
begin

section \<open>The document store (DiagramStorageService.ts)\<close>

text \<open>
  The service keeps every document in a directory of files: one metadata index
  (\<^verbatim>\<open>metadata.json\<close>), one content file per document, one version index per document and
  one content file per version. The model below follows the class method by method.
  Its conventions:
  \<^item> The strings a caller supplies as name, content and prompt are sequences of UTF-16 code
    units. Identifiers and paths are strings of code units below 256; \<^verbatim>\<open>generateId\<close> produces
    such identifiers, and \<^verbatim>\<open>path.join\<close> of a directory and a file name that needs no
    normalization puts a separator between them.
  \<^item> A file is represented by what the service can observe of it. A file that is read as
    text (the \<^verbatim>\<open>.mmd\<close> files) is \<open>Text s\<close>: the file that writing the string \<open>s\<close> with encoding
    \<^verbatim>\<open>utf-8\<close> produces. The encoder replaces every unpaired surrogate by U+FFFD, so reading the
    file gives \<open>toWellFormed s\<close>. A file that is read with \<^verbatim>\<open>JSON.parse\<close> (the \<^verbatim>\<open>.json\<close> files) is
    \<open>Json v\<close> for the value \<open>v\<close> that \<^verbatim>\<open>JSON.parse\<close> gives: \<^verbatim>\<open>null\<close>, an object of document entries
    or an array of version entries; \<^verbatim>\<open>JSON.stringify\<close> escapes unpaired surrogates, so a value
    is read back as it was written. JSON values of another shape are not represented. \<open>Text\<close>
    in the place of a \<^verbatim>\<open>.json\<close> file is a text that \<^verbatim>\<open>JSON.parse\<close> rejects. \<open>Unreadable\<close> is a
    file that exists and cannot be read; \<open>Json\<close> in the place of a \<^verbatim>\<open>.mmd\<close> file, which the
    service never writes, counts as such a file. A file can be write protected: writing
    or unlinking it throws.
  \<^item> An object of document entries is the list of its own properties in the order in
    which \<^verbatim>\<open>Object.entries\<close> enumerates them, with distinct keys. \<^verbatim>\<open>metadata[id]\<close> finds an own
    property or, failing that, a member of \<^verbatim>\<open>Object.prototype\<close>. The properties of an entry
    that the service may leave out are optional; \<^verbatim>\<open>updatedAt\<close> is in every entry it writes.
  \<^item> What the methods do with an array in the place of the metadata index depends on the
    members of \<^verbatim>\<open>Array.prototype\<close> and is not modelled: a method answers \<open>Unmodelled\<close> where it
    would use such an index.
  \<^item> \<^verbatim>\<open>Date.now()\<close> and \<^verbatim>\<open>Math.random()\<close> are streams of the world, consumed in call order.
  \<^item> A method that throws returns \<open>Inl\<close> with the error and the world it left behind. The
    \<^verbatim>\<open>catch\<close> blocks that log and rethrow change nothing and are left out; the two that
    swallow the error (in the loaders) are modelled.
\<close>

subsection \<open>Strings\<close>

type_synonym jsstring = "16 word list"

text \<open>The string whose code units are the given characters.\<close>

definition str :: "string \<Rightarrow> jsstring" where
  "str s = map (\<lambda>c. of_nat (of_char c)) s"

definition isHighSurrogate :: "16 word \<Rightarrow> bool" where
  "isHighSurrogate u = (0xD800 \<le> u \<and> u \<le> 0xDBFF)"

definition isLowSurrogate :: "16 word \<Rightarrow> bool" where
  "isLowSurrogate u = (0xDC00 \<le> u \<and> u \<le> 0xDFFF)"

text \<open>\<^verbatim>\<open>String.prototype.toWellFormed\<close>: every surrogate that is not part of a pair becomes
  U+FFFD. This is what encoding a string as UTF-8 and decoding it again does.\<close>

fun toWellFormed :: "jsstring \<Rightarrow> jsstring" where
  "toWellFormed [] = []"
| "toWellFormed [u] = (if isHighSurrogate u \<or> isLowSurrogate u then [0xFFFD] else [u])"
| "toWellFormed (u # v # us) =
     (if isHighSurrogate u \<and> isLowSurrogate v then u # v # toWellFormed us
      else if isHighSurrogate u \<or> isLowSurrogate u then 0xFFFD # toWellFormed (v # us)
      else u # toWellFormed (v # us))"

definition isWellFormed :: "jsstring \<Rightarrow> bool" where
  "isWellFormed s = (toWellFormed s = s)"

subsection \<open>Data\<close>

record DiagramVersionMeta =
  vm_id :: string
  vm_diagramId :: string
  vm_prompt :: "jsstring option"
  vm_createdAt :: int

record DiagramVersion =
  v_id :: string
  v_diagramId :: string
  v_content :: jsstring
  v_prompt :: "jsstring option"
  v_createdAt :: int

text \<open>An entry of the metadata index, and the object a method returns for a document. A field
  is \<open>None\<close> when the property is \<^verbatim>\<open>undefined\<close>.\<close>

record DiagramMeta =
  dm_id :: "string option"
  dm_name :: "jsstring option"
  dm_prompt :: "jsstring option"
  dm_createdAt :: "int option"
  dm_updatedAt :: int

record DiagramFile =
  d_id :: string
  d_name :: "jsstring option"
  d_content :: jsstring
  d_prompt :: "jsstring option"
  d_createdAt :: "int option"
  d_updatedAt :: "int option"

type_synonym path = string

datatype json =
  Null
  | Object "(string \<times> DiagramMeta) list"
  | Array "DiagramVersionMeta list"

datatype contents =
  Text jsstring
  | Json json
  | Unreadable

datatype error =
  IOError path
  | DiagramNotFound string
  | VersionNotFound string
  | TypeError
  | Unmodelled

record world =
  files :: "path \<Rightarrow> contents option"
  writeProtected :: "path \<Rightarrow> bool"
  clock :: "nat \<Rightarrow> int"
  ticks :: nat
  random :: "nat \<Rightarrow> string"
  draws :: nat

type_synonym 'a result = "(error \<times> world) + ('a \<times> world)"

subsection \<open>The environment: clock, random source, file system\<close>

definition Date_now :: "world \<Rightarrow> int \<times> world" where
  "Date_now w = (clock w (ticks w), w\<lparr>ticks := Suc (ticks w)\<rparr>)"

text \<open>\<^verbatim>\<open>Math.random().toString(36).substring(2, 9)\<close>: the next draw of the random source.\<close>

definition Math_random_suffix :: "world \<Rightarrow> string \<times> world" where
  "Math_random_suffix w = (random w (draws w), w\<lparr>draws := Suc (draws w)\<rparr>)"

fun showNat :: "nat \<Rightarrow> string" where
  "showNat n =
     (if n < 10 then [''0123456789'' ! n]
      else showNat (n div 10) @ [''0123456789'' ! (n mod 10)])"

declare showNat.simps [simp del]

definition showInt :: "int \<Rightarrow> string" where
  "showInt i = (if i < 0 then ''-'' @ showNat (nat (- i)) else showNat (nat i))"

definition generateId :: "world \<Rightarrow> string \<times> world" where
  "generateId w =
     (case Date_now w of (t, w1) \<Rightarrow>
     (case Math_random_suffix w1 of (r, w2) \<Rightarrow>
        (showInt t @ ''-'' @ r, w2)))"

definition existsSync :: "world \<Rightarrow> path \<Rightarrow> bool" where
  "existsSync w p = (files w p \<noteq> None)"

text \<open>\<^verbatim>\<open>fs.readFileSync(p, 'utf-8')\<close> of a file that is read as text.\<close>

definition readFileSync :: "world \<Rightarrow> path \<Rightarrow> error + jsstring" where
  "readFileSync w p =
     (case files w p of
        Some (Text s) \<Rightarrow> Inr (toWellFormed s)
      | _ \<Rightarrow> Inl (IOError p))"

definition writeFileSync :: "world \<Rightarrow> path \<Rightarrow> contents \<Rightarrow> error + world" where
  "writeFileSync w p d =
     (if writeProtected w p then Inl (IOError p)
      else Inr (w\<lparr>files := (files w)(p \<mapsto> d)\<rparr>))"

definition unlinkSync :: "world \<Rightarrow> path \<Rightarrow> error + world" where
  "unlinkSync w p =
     (if writeProtected w p \<or> files w p = None then Inl (IOError p)
      else Inr (w\<lparr>files := (files w)(p := None)\<rparr>))"

subsection \<open>Paths\<close>

text \<open>Paths are relative to the user data directory.\<close>

definition path_join :: "path \<Rightarrow> string \<Rightarrow> path" where
  "path_join dir name = dir @ ''/'' @ name"

definition diagramsDir :: path where
  "diagramsDir = ''diagrams''"

definition versionsDir :: path where
  "versionsDir = path_join diagramsDir ''versions''"

definition getMetadataPath :: path where
  "getMetadataPath = path_join diagramsDir ''metadata.json''"

definition getDiagramPath :: "string \<Rightarrow> path" where
  "getDiagramPath ident = path_join diagramsDir (ident @ ''.mmd'')"

definition getVersionsMetadataPath :: "string \<Rightarrow> path" where
  "getVersionsMetadataPath diagramId = path_join versionsDir (diagramId @ ''-versions.json'')"

definition getVersionPath :: "string \<Rightarrow> string \<Rightarrow> path" where
  "getVersionPath diagramId versionId =
     path_join versionsDir (diagramId @ ''-'' @ versionId @ ''.mmd'')"

subsection \<open>Version index and versions\<close>

text \<open>The loaders return what \<^verbatim>\<open>JSON.parse\<close> gives, whatever it is. They catch both a failed
  read and a failed parse and answer with the empty index.\<close>

definition loadVersionsMetadata :: "world \<Rightarrow> string \<Rightarrow> json" where
  "loadVersionsMetadata w diagramId =
     (if \<not> existsSync w (getVersionsMetadataPath diagramId) then Array []
      else case files w (getVersionsMetadataPath diagramId) of
             Some (Json parsed) \<Rightarrow> parsed
           | _ \<Rightarrow> Array [])"

definition saveVersionsMetadata ::
  "world \<Rightarrow> string \<Rightarrow> DiagramVersionMeta list \<Rightarrow> error + world" where
  "saveVersionsMetadata w diagramId versions =
     writeFileSync w (getVersionsMetadataPath diagramId) (Json (Array versions))"

definition withContent :: "DiagramVersionMeta \<Rightarrow> jsstring \<Rightarrow> DiagramVersion" where
  "withContent meta content =
     \<lparr>v_id = vm_id meta, v_diagramId = vm_diagramId meta, v_content = content,
      v_prompt = vm_prompt meta, v_createdAt = vm_createdAt meta\<rparr>"

text \<open>\<^verbatim>\<open>versions.push\<close>, \<^verbatim>\<open>versionsMetadata.find\<close> and \<^verbatim>\<open>for (... of versionsMetadata)\<close> throw a
  \<^verbatim>\<open>TypeError\<close> when the loaded value is \<^verbatim>\<open>null\<close> or an object.\<close>

definition createVersion ::
  "world \<Rightarrow> string \<Rightarrow> jsstring \<Rightarrow> jsstring option \<Rightarrow> DiagramVersion result" where
  "createVersion w diagramId content prompt =
     (case generateId w of (versionId, w1) \<Rightarrow>
     (case Date_now w1 of (now, w2) \<Rightarrow>
     (case writeFileSync w2 (getVersionPath diagramId versionId) (Text content) of
        Inl e \<Rightarrow> Inl (e, w2)
      | Inr w3 \<Rightarrow>
          (case loadVersionsMetadata w3 diagramId of
             Array versions \<Rightarrow>
               (let newVersion = \<lparr>vm_id = versionId, vm_diagramId = diagramId,
                                  vm_prompt = prompt, vm_createdAt = now\<rparr>
                in (case saveVersionsMetadata w3 diagramId (versions @ [newVersion]) of
                      Inl e \<Rightarrow> Inl (e, w3)
                    | Inr w4 \<Rightarrow> Inr (withContent newVersion content, w4)))
           | _ \<Rightarrow> Inl (TypeError, w3)))))"

fun collectVersions ::
  "world \<Rightarrow> string \<Rightarrow> DiagramVersionMeta list \<Rightarrow> error + DiagramVersion list" where
  "collectVersions w diagramId [] = Inr []"
| "collectVersions w diagramId (meta # metas) =
     (if existsSync w (getVersionPath diagramId (vm_id meta)) then
        (case readFileSync w (getVersionPath diagramId (vm_id meta)) of
           Inl e \<Rightarrow> Inl e
         | Inr content \<Rightarrow>
             (case collectVersions w diagramId metas of
                Inl e \<Rightarrow> Inl e
              | Inr versions \<Rightarrow> Inr (withContent meta content # versions)))
      else collectVersions w diagramId metas)"

text \<open>\<^verbatim>\<open>versions.sort((a, b) => b.createdAt - a.createdAt)\<close>: a stable sort, newest first.\<close>

definition listVersions :: "world \<Rightarrow> string \<Rightarrow> error + DiagramVersion list" where
  "listVersions w diagramId =
     (case loadVersionsMetadata w diagramId of
        Array versionsMetadata \<Rightarrow>
          (case collectVersions w diagramId versionsMetadata of
             Inl e \<Rightarrow> Inl e
           | Inr versions \<Rightarrow> Inr (sort_key (\<lambda>v. - v_createdAt v) versions))
      | _ \<Rightarrow> Inl TypeError)"

definition getVersion :: "world \<Rightarrow> string \<Rightarrow> string \<Rightarrow> error + DiagramVersion option" where
  "getVersion w diagramId versionId =
     (case loadVersionsMetadata w diagramId of
        Array versionsMetadata \<Rightarrow>
          (case find (\<lambda>v. vm_id v = versionId) versionsMetadata of
             None \<Rightarrow> Inr None
           | Some meta \<Rightarrow>
               (if \<not> existsSync w (getVersionPath diagramId versionId) then Inr None
                else (case readFileSync w (getVersionPath diagramId versionId) of
                        Inl e \<Rightarrow> Inl e
                      | Inr content \<Rightarrow> Inr (Some (withContent meta content)))))
      | _ \<Rightarrow> Inl TypeError)"

subsection \<open>Metadata index and documents\<close>

definition loadMetadata :: "world \<Rightarrow> json" where
  "loadMetadata w =
     (if \<not> existsSync w getMetadataPath then Object []
      else (case files w getMetadataPath of
              Some (Json parsed) \<Rightarrow> parsed
            | _ \<Rightarrow> Object []))"

definition saveMetadata :: "world \<Rightarrow> (string \<times> DiagramMeta) list \<Rightarrow> error + world" where
  "saveMetadata w metadata = writeFileSync w getMetadataPath (Json (Object metadata))"

text \<open>The value of \<^verbatim>\<open>metadata[id]\<close> for an object \<^verbatim>\<open>metadata\<close> of document entries: an own entry,
  or else the member of \<^verbatim>\<open>Object.prototype\<close> of that name: one of its functions (represented
  by the function's \<^verbatim>\<open>name\<close>) or, for \<^verbatim>\<open>__proto__\<close>, \<^verbatim>\<open>Object.prototype\<close> itself. \<open>None\<close> is
  \<^verbatim>\<open>undefined\<close>; every other value is truthy.\<close>

datatype property = Entry DiagramMeta | Function string | ObjectPrototype

definition objectPrototypeFunctions :: "string list" where
  "objectPrototypeFunctions =
     [''constructor'', ''__defineGetter__'', ''__defineSetter__'', ''hasOwnProperty'',
      ''__lookupGetter__'', ''__lookupSetter__'', ''isPrototypeOf'', ''propertyIsEnumerable'',
      ''toString'', ''valueOf'', ''toLocaleString'']"

definition getProperty :: "(string \<times> DiagramMeta) list \<Rightarrow> string \<Rightarrow> property option" where
  "getProperty metadata ident =
     (case map_of metadata ident of
        Some meta \<Rightarrow> Some (Entry meta)
      | None \<Rightarrow>
          (if ident = ''__proto__'' then Some ObjectPrototype
           else if ident \<in> set objectPrototypeFunctions then
             Some (Function (if ident = ''constructor'' then ''Object'' else ident))
           else None))"

text \<open>\<^verbatim>\<open>meta.name\<close>, \<^verbatim>\<open>meta.prompt\<close>, \<^verbatim>\<open>meta.createdAt\<close> and \<^verbatim>\<open>meta.updatedAt\<close>.\<close>

fun name_of :: "property \<Rightarrow> jsstring option" where
  "name_of (Entry meta) = dm_name meta"
| "name_of (Function name) = Some (str name)"
| "name_of ObjectPrototype = None"

fun prompt_of :: "property \<Rightarrow> jsstring option" where
  "prompt_of (Entry meta) = dm_prompt meta"
| "prompt_of (Function name) = None"
| "prompt_of ObjectPrototype = None"

fun createdAt_of :: "property \<Rightarrow> int option" where
  "createdAt_of (Entry meta) = dm_createdAt meta"
| "createdAt_of (Function name) = None"
| "createdAt_of ObjectPrototype = None"

fun updatedAt_of :: "property \<Rightarrow> int option" where
  "updatedAt_of (Entry meta) = Some (dm_updatedAt meta)"
| "updatedAt_of (Function name) = None"
| "updatedAt_of ObjectPrototype = None"

text \<open>\<^verbatim>\<open>{ ...meta, updatedAt: now }\<close>: a function and \<^verbatim>\<open>Object.prototype\<close> have no enumerable
  property of their own.\<close>

fun spread :: "property \<Rightarrow> int \<Rightarrow> DiagramMeta" where
  "spread (Entry meta) now = meta\<lparr>dm_updatedAt := now\<rparr>"
| "spread (Function name) now =
     \<lparr>dm_id = None, dm_name = None, dm_prompt = None, dm_createdAt = None, dm_updatedAt = now\<rparr>"
| "spread ObjectPrototype now =
     \<lparr>dm_id = None, dm_name = None, dm_prompt = None, dm_createdAt = None, dm_updatedAt = now\<rparr>"

text \<open>\<^verbatim>\<open>metadata[id] = entry\<close> replaces an own entry in place or appends a new one (no
  identifier the service assigns to is an array index). Without an own property of that
  name, assigning to \<^verbatim>\<open>__proto__\<close> sets the prototype and adds no entry.
  \<^verbatim>\<open>delete metadata[id]\<close> is \<open>AList.delete\<close>.\<close>

definition assign ::
  "(string \<times> DiagramMeta) list \<Rightarrow> string \<Rightarrow> DiagramMeta \<Rightarrow> (string \<times> DiagramMeta) list" where
  "assign metadata ident entry =
     (if ident = ''__proto__'' \<and> map_of metadata ident = None then metadata
      else AList.update ident entry metadata)"

definition materialize :: "string \<Rightarrow> property \<Rightarrow> jsstring \<Rightarrow> DiagramFile" where
  "materialize ident meta content =
     \<lparr>d_id = ident, d_name = name_of meta, d_content = content, d_prompt = prompt_of meta,
      d_createdAt = createdAt_of meta, d_updatedAt = updatedAt_of meta\<rparr>"

fun collectDiagrams :: "world \<Rightarrow> (string \<times> DiagramMeta) list \<Rightarrow> error + DiagramFile list" where
  "collectDiagrams w [] = Inr []"
| "collectDiagrams w ((ident, meta) # entries) =
     (if existsSync w (getDiagramPath ident) then
        (case readFileSync w (getDiagramPath ident) of
           Inl e \<Rightarrow> Inl e
         | Inr content \<Rightarrow>
             (case collectDiagrams w entries of
                Inl e \<Rightarrow> Inl e
              | Inr diagrams \<Rightarrow> Inr (materialize ident (Entry meta) content # diagrams)))
      else collectDiagrams w entries)"

text \<open>\<^verbatim>\<open>Object.entries(null)\<close> throws a \<^verbatim>\<open>TypeError\<close>.
  \<^verbatim>\<open>diagrams.sort((a, b) => b.updatedAt - a.updatedAt)\<close> is a stable sort, latest first; every
  document in the list comes from an own entry and has its \<^verbatim>\<open>updatedAt\<close>.\<close>

definition list_diagrams :: "world \<Rightarrow> error + DiagramFile list" where
  "list_diagrams w =
     (case loadMetadata w of
        Null \<Rightarrow> Inl TypeError
      | Array versions \<Rightarrow> Inl Unmodelled
      | Object metadata \<Rightarrow>
          (case collectDiagrams w metadata of
             Inl e \<Rightarrow> Inl e
           | Inr diagrams \<Rightarrow> Inr (sort_key (\<lambda>d. - the (d_updatedAt d)) diagrams)))"

text \<open>\<^verbatim>\<open>metadata[id]\<close> throws a \<^verbatim>\<open>TypeError\<close> when \<^verbatim>\<open>metadata\<close> is \<^verbatim>\<open>null\<close>.\<close>

definition getById :: "world \<Rightarrow> string \<Rightarrow> error + DiagramFile option" where
  "getById w ident =
     (case loadMetadata w of
        Null \<Rightarrow> Inl TypeError
      | Array versions \<Rightarrow> Inl Unmodelled
      | Object metadata \<Rightarrow>
          (case getProperty metadata ident of
             None \<Rightarrow> Inr None
           | Some meta \<Rightarrow>
               (if \<not> existsSync w (getDiagramPath ident) then Inr None
                else (case readFileSync w (getDiagramPath ident) of
                        Inl e \<Rightarrow> Inl e
                      | Inr content \<Rightarrow> Inr (Some (materialize ident meta content))))))"

definition create ::
  "world \<Rightarrow> jsstring \<Rightarrow> jsstring \<Rightarrow> jsstring option \<Rightarrow> DiagramFile result" where
  "create w name content prompt =
     (case generateId w of (ident, w1) \<Rightarrow>
     (case Date_now w1 of (now, w2) \<Rightarrow>
     (case writeFileSync w2 (getDiagramPath ident) (Text content) of
        Inl e \<Rightarrow> Inl (e, w2)
      | Inr w3 \<Rightarrow>
          (case loadMetadata w3 of
             Null \<Rightarrow> Inl (TypeError, w3)
           | Array versions \<Rightarrow> Inl (Unmodelled, w3)
           | Object metadata \<Rightarrow>
               (case saveMetadata w3
                       (assign metadata ident
                          \<lparr>dm_id = Some ident, dm_name = Some name, dm_prompt = prompt,
                           dm_createdAt = Some now, dm_updatedAt = now\<rparr>) of
                  Inl e \<Rightarrow> Inl (e, w3)
                | Inr w4 \<Rightarrow>
                    (case createVersion w4 ident content prompt of
                       Inl ew \<Rightarrow> Inl ew
                     | Inr (version, w5) \<Rightarrow>
                         Inr (\<lparr>d_id = ident, d_name = Some name, d_content = content,
                               d_prompt = prompt, d_createdAt = Some now,
                               d_updatedAt = Some now\<rparr>, w5)))))))"

text \<open>\<^verbatim>\<open>prompt ?? meta.prompt\<close>\<close>

definition nullish :: "'a option \<Rightarrow> 'a option \<Rightarrow> 'a option" where
  "nullish a b = (case a of None \<Rightarrow> b | Some x \<Rightarrow> Some x)"

definition update ::
  "world \<Rightarrow> string \<Rightarrow> jsstring \<Rightarrow> jsstring option \<Rightarrow> DiagramFile result" where
  "update w ident content prompt =
     (case loadMetadata w of
        Null \<Rightarrow> Inl (TypeError, w)
      | Array versions \<Rightarrow> Inl (Unmodelled, w)
      | Object metadata \<Rightarrow>
          (case getProperty metadata ident of
             None \<Rightarrow> Inl (DiagramNotFound ident, w)
           | Some meta \<Rightarrow>
               (case Date_now w of (now, w1) \<Rightarrow>
               (case writeFileSync w1 (getDiagramPath ident) (Text content) of
                  Inl e \<Rightarrow> Inl (e, w1)
                | Inr w2 \<Rightarrow>
                    (case createVersion w2 ident content prompt of
                       Inl ew \<Rightarrow> Inl ew
                     | Inr (version, w3) \<Rightarrow>
                         (case saveMetadata w3
                                 (assign metadata ident
                                    ((spread meta now)
                                       \<lparr>dm_prompt := nullish prompt (prompt_of meta)\<rparr>)) of
                            Inl e \<Rightarrow> Inl (e, w3)
                          | Inr w4 \<Rightarrow>
                              Inr (\<lparr>d_id = ident, d_name = name_of meta, d_content = content,
                                    d_prompt = nullish prompt (prompt_of meta),
                                    d_createdAt = createdAt_of meta,
                                    d_updatedAt = Some now\<rparr>, w4)))))))"

fun unlinkVersions :: "world \<Rightarrow> string \<Rightarrow> DiagramVersionMeta list \<Rightarrow> (error \<times> world) + world" where
  "unlinkVersions w ident [] = Inr w"
| "unlinkVersions w ident (version # versions) =
     (if existsSync w (getVersionPath ident (vm_id version)) then
        (case unlinkSync w (getVersionPath ident (vm_id version)) of
           Inl e \<Rightarrow> Inl (e, w)
         | Inr w' \<Rightarrow> unlinkVersions w' ident versions)
      else unlinkVersions w ident versions)"

definition unlinkIfExists :: "world \<Rightarrow> path \<Rightarrow> (error \<times> world) + world" where
  "unlinkIfExists w p =
     (if existsSync w p then
        (case unlinkSync w p of Inl e \<Rightarrow> Inl (e, w) | Inr w' \<Rightarrow> Inr w')
      else Inr w)"

definition delete :: "world \<Rightarrow> string \<Rightarrow> unit result" where
  "delete w ident =
     (case loadMetadata w of
        Null \<Rightarrow> Inl (TypeError, w)
      | Array versions \<Rightarrow> Inl (Unmodelled, w)
      | Object metadata \<Rightarrow>
          (case getProperty metadata ident of
             None \<Rightarrow> Inl (DiagramNotFound ident, w)
           | Some meta \<Rightarrow>
               (case unlinkIfExists w (getDiagramPath ident) of
                  Inl ew \<Rightarrow> Inl ew
                | Inr w1 \<Rightarrow>
                    (case loadVersionsMetadata w1 ident of
                       Array versionsMetadata \<Rightarrow>
                         (case unlinkVersions w1 ident versionsMetadata of
                            Inl ew \<Rightarrow> Inl ew
                          | Inr w2 \<Rightarrow>
                              (case unlinkIfExists w2 (getVersionsMetadataPath ident) of
                                 Inl ew \<Rightarrow> Inl ew
                               | Inr w3 \<Rightarrow>
                                   (case saveMetadata w3 (AList.delete ident metadata) of
                                      Inl e \<Rightarrow> Inl (e, w3)
                                    | Inr w4 \<Rightarrow> Inr ((), w4))))
                     | _ \<Rightarrow> Inl (TypeError, w1)))))"

definition rename :: "world \<Rightarrow> string \<Rightarrow> jsstring \<Rightarrow> DiagramFile result" where
  "rename w ident newName =
     (case loadMetadata w of
        Null \<Rightarrow> Inl (TypeError, w)
      | Array versions \<Rightarrow> Inl (Unmodelled, w)
      | Object metadata \<Rightarrow>
          (case getProperty metadata ident of
             None \<Rightarrow> Inl (DiagramNotFound ident, w)
           | Some meta \<Rightarrow>
               (case Date_now w of (now, w1) \<Rightarrow>
               (case saveMetadata w1
                       (assign metadata ident ((spread meta now)\<lparr>dm_name := Some newName\<rparr>)) of
                  Inl e \<Rightarrow> Inl (e, w1)
                | Inr w2 \<Rightarrow>
                    (case readFileSync w2 (getDiagramPath ident) of
                       Inl e \<Rightarrow> Inl (e, w2)
                     | Inr content \<Rightarrow>
                         Inr (\<lparr>d_id = ident, d_name = Some newName, d_content = content,
                               d_prompt = prompt_of meta, d_createdAt = createdAt_of meta,
                               d_updatedAt = Some now\<rparr>, w2))))))"

definition restoreVersion :: "world \<Rightarrow> string \<Rightarrow> string \<Rightarrow> DiagramFile result" where
  "restoreVersion w diagramId versionId =
     (case getVersion w diagramId versionId of
        Inl e \<Rightarrow> Inl (e, w)
      | Inr None \<Rightarrow> Inl (VersionNotFound versionId, w)
      | Inr (Some version) \<Rightarrow> update w diagramId (v_content version) (v_prompt version))"

text \<open>\<^verbatim>\<open>error.message\<close> of the two errors the service itself throws.\<close>

fun message :: "error \<Rightarrow> string" where
  "message (DiagramNotFound ident) = ''Diagram not found: '' @ ident"
| "message (VersionNotFound versionId) = ''Version not found: '' @ versionId"
| "message e = undefined"

text \<open>The spec's wording of restoring: fetch the named version, fail with "not found" if it
  is absent, then perform \<open>update\<close> with the version's content and prompt.\<close>

definition restoreVersion_spec :: "world \<Rightarrow> string \<Rightarrow> string \<Rightarrow> DiagramFile result" where
  "restoreVersion_spec w diagramId versionId =
     (case getVersion w diagramId versionId of
        Inl e \<Rightarrow> Inl (e, w)
      | Inr fetched \<Rightarrow>
          (case fetched of
             None \<Rightarrow> Inl (VersionNotFound versionId, w)
           | Some vOld \<Rightarrow> update w diagramId (v_content vOld) (v_prompt vOld)))"


section \<open>The settings and credential store (SettingsService)\<close>

text \<open>
  The service keeps the settings in memory and rewrites \<^verbatim>\<open>settings.json\<close> on every change.
  The operating system's \<^verbatim>\<open>safeStorage\<close> and Node's \<^verbatim>\<open>Buffer\<close> conversions are not code of
  the application: they are the fields of a platform record. A buffer is a list of bytes.
\<close>

record SettingsService =
  settings :: "(string \<times> string) list"
  settingsFile :: "(string \<times> string) list option"
  settingsFileLocked :: bool

record platform =
  isEncryptionAvailable :: bool
  encryptString :: "string \<Rightarrow> string option"
  decryptString :: "string \<Rightarrow> string option"
  toBase64 :: "string \<Rightarrow> string"
  fromBase64 :: "string \<Rightarrow> string"

datatype settings_error = SettingsWriteFailed | EncryptionFailed

definition saveSettings :: "SettingsService \<Rightarrow> settings_error + SettingsService" where
  "saveSettings svc =
     (if settingsFileLocked svc then Inl SettingsWriteFailed
      else Inr (svc\<lparr>settingsFile := Some (settings svc)\<rparr>))"

text \<open>\<^verbatim>\<open>this.settings[key] || null\<close>: the empty string is falsy. The lookup is that of an own
  property: the keys the application uses are not names of members of \<^verbatim>\<open>Object.prototype\<close>.\<close>

definition settings_get :: "SettingsService \<Rightarrow> string \<Rightarrow> string option" where
  "settings_get svc key =
     (case map_of (settings svc) key of
        None \<Rightarrow> None
      | Some v \<Rightarrow> if v = [] then None else Some v)"

definition settings_set ::
  "SettingsService \<Rightarrow> string \<Rightarrow> string \<Rightarrow> (settings_error \<times> SettingsService) + SettingsService" where
  "settings_set svc key v =
     (let svc1 = svc\<lparr>settings := AList.update key v (settings svc)\<rparr>
      in case saveSettings svc1 of Inl e \<Rightarrow> Inl (e, svc1) | Inr svc2 \<Rightarrow> Inr svc2)"

definition settings_delete ::
  "SettingsService \<Rightarrow> string \<Rightarrow> (settings_error \<times> SettingsService) + SettingsService" where
  "settings_delete svc key =
     (let svc1 = svc\<lparr>settings := AList.delete key (settings svc)\<rparr>
      in case saveSettings svc1 of Inl e \<Rightarrow> Inl (e, svc1) | Inr svc2 \<Rightarrow> Inr svc2)"

definition getAll :: "SettingsService \<Rightarrow> (string \<times> string) list" where
  "getAll svc = settings svc"

definition getOpenAIApiKey :: "platform \<Rightarrow> SettingsService \<Rightarrow> string option" where
  "getOpenAIApiKey os svc =
     (case settings_get svc ''openai_api_key_encrypted'' of
        None \<Rightarrow> settings_get svc ''openai_api_key''
      | Some encryptedKey \<Rightarrow>
          (if isEncryptionAvailable os then
             (case decryptString os (fromBase64 os encryptedKey) of
                Some apiKey \<Rightarrow> Some apiKey
              | None \<Rightarrow> None)
           else None))"

definition setOpenAIApiKey ::
  "platform \<Rightarrow> SettingsService \<Rightarrow> string \<Rightarrow> (settings_error \<times> SettingsService) + SettingsService" where
  "setOpenAIApiKey os svc apiKey =
     (if isEncryptionAvailable os then
        (case encryptString os apiKey of
           None \<Rightarrow> Inl (EncryptionFailed, svc)
         | Some encrypted \<Rightarrow>
             (case settings_set svc ''openai_api_key_encrypted'' (toBase64 os encrypted) of
                Inl es \<Rightarrow> Inl es
              | Inr svc1 \<Rightarrow> settings_delete svc1 ''openai_api_key''))
      else settings_set svc ''openai_api_key'' apiKey)"

definition getOpenAIModel :: "SettingsService \<Rightarrow> string" where
  "getOpenAIModel svc =
     (case settings_get svc ''openai_model'' of None \<Rightarrow> ''gpt-5'' | Some m \<Rightarrow> m)"

definition setOpenAIModel ::
  "SettingsService \<Rightarrow> string \<Rightarrow> (settings_error \<times> SettingsService) + SettingsService" where
  "setOpenAIModel svc m = settings_set svc ''openai_model'' m"

section \<open>The generation client (OpenAIService)\<close>

subsection \<open>String methods\<close>

text \<open>Strings are lists of 8-bit characters; \<open>isWhiteSpace\<close> holds of the white space and line
  terminator characters of ECMAScript in that range.\<close>

definition isWhiteSpace :: "char \<Rightarrow> bool" where
  "isWhiteSpace c = (c \<in> set [CHR 0x09, CHR 0x0A, CHR 0x0B, CHR 0x0C, CHR 0x0D, CHR 0x20, CHR 0xA0])"

definition trim :: "string \<Rightarrow> string" where
  "trim s = rev (dropWhile isWhiteSpace (rev (dropWhile isWhiteSpace s)))"

definition startsWith :: "string \<Rightarrow> string \<Rightarrow> bool" where
  "startsWith s p = (take (length p) s = p)"

definition endsWith :: "string \<Rightarrow> string \<Rightarrow> bool" where
  "endsWith s p = (length p \<le> length s \<and> drop (length s - length p) s = p)"

fun includes_str :: "string \<Rightarrow> string \<Rightarrow> bool" where
  "includes_str [] p = (p = [])"
| "includes_str (c # s) p = (startsWith (c # s) p \<or> includes_str s p)"

text \<open>\<^verbatim>\<open>s.slice(n)\<close> and \<^verbatim>\<open>s.slice(0, -n)\<close> for a natural number \<open>n\<close>.\<close>

definition slice_from :: "string \<Rightarrow> nat \<Rightarrow> string" where
  "slice_from s n = drop n s"

definition slice_to_end_minus :: "string \<Rightarrow> nat \<Rightarrow> string" where
  "slice_to_end_minus s n = take (length s - n) s"

subsection \<open>Requests and responses\<close>

datatype 'a IPCResponse = Success 'a | Failure string string

datatype thrown = Error string | NonError

datatype param = Max_completion_tokens nat | Max_tokens nat | Temperature real

record chat_request =
  rq_apiKey :: string
  rq_model :: string
  rq_system :: string
  rq_user :: string
  rq_params :: "param list"

text \<open>The provider answers a request with \<^verbatim>\<open>completion.choices[0]?.message?.content\<close>
  (\<open>None\<close> when it is null or undefined) or throws.\<close>

type_synonym provider = "chat_request \<Rightarrow> thrown + string option"

definition isGPT5Model :: "string \<Rightarrow> bool" where
  "isGPT5Model m = (startsWith m ''gpt-5'' \<or> includes_str m ''o1'' \<or> includes_str m ''o3'')"

definition buildCompletionParams :: "string \<Rightarrow> nat \<Rightarrow> real option \<Rightarrow> param list" where
  "buildCompletionParams m maxTokens temperature =
     (let isGPT5 = isGPT5Model m;
          tokenParam = (if isGPT5 then [Max_completion_tokens maxTokens] else [Max_tokens maxTokens]);
          temperatureParam =
            (if isGPT5 then []
             else [Temperature (case temperature of None \<Rightarrow> 7 / 10 | Some t \<Rightarrow> t)])
      in tokenParam @ temperatureParam)"

definition notConfigured :: string where
  "notConfigured =
     ''OpenAI API key not configured. Please set your API key in Settings (click the gear icon).''"

definition getClient :: "platform \<Rightarrow> SettingsService \<Rightarrow> thrown + string" where
  "getClient os svc =
     (case getOpenAIApiKey os svc of
        None \<Rightarrow> Inl (Error notConfigured)
      | Some apiKey \<Rightarrow> if apiKey = [] then Inl (Error notConfigured) else Inr apiKey)"

definition newline :: string where
  "newline = [CHR 0x0A]"

definition apostrophe :: string where
  "apostrophe = [CHR 0x27]"

definition joinLines :: "string list \<Rightarrow> string" where
  "joinLines ls = concat (map (\<lambda>l. l @ newline) ls)"

definition fromScratch :: string where
  "fromScratch =
     ''Create a new diagram from scratch based on the user'' @ apostrophe @ ''s description.''"

definition systemPrompt :: "string option \<Rightarrow> string" where
  "systemPrompt existingDiagram =
     joinLines
       [''You are an expert at creating Mermaid diagrams. Your task is to generate valid Mermaid diagram code based on the user''
          @ apostrophe @ ''s description.'',
        [],
        ''RULES:'',
        ''- Return ONLY the Mermaid diagram code, no explanations or markdown code blocks'',
        ''- Ensure the diagram syntax is valid and will render correctly'',
        ''- Use appropriate diagram types: flowchart, sequence, class, state, ER, gantt, pie, etc.'',
        ''- Keep diagrams clear and well-organized'',
        ''- Use meaningful node names and labels'',
        ''- Add proper connections with clear labels where appropriate'',
        [],
        ''SUPPORTED DIAGRAM TYPES:'',
        ''- flowchart/graph (TD, LR, TB, RL) - for flow diagrams'',
        ''- sequenceDiagram - for interactions between participants'',
        ''- classDiagram - for class structures and relationships'',
        ''- stateDiagram-v2 - for state machines'',
        ''- erDiagram - for entity relationships'',
        ''- gantt - for project timelines'',
        ''- pie - for pie charts'',
        ''- mindmap - for mind maps'',
        []]
     @ (case existingDiagram of
          None \<Rightarrow> fromScratch
        | Some existing \<Rightarrow>
            if existing = [] then fromScratch
            else newline @ ''CURRENT DIAGRAM TO MODIFY:'' @ newline @ ''```'' @ newline @ existing
                 @ newline @ ''```'' @ newline @ newline
                 @ ''Modify the above diagram based on the user'' @ apostrophe
                 @ ''s request. Keep existing structure where possible.'')"

text \<open>The clean-up of the response: trim, drop an opening fence, drop a closing fence,
  trim again.\<close>

definition stripFences :: "string \<Rightarrow> string" where
  "stripFences content0 =
     (let content1 = trim content0;
          content2 = (if startsWith content1 ''```mermaid'' then slice_from content1 10
                      else if startsWith content1 ''```'' then slice_from content1 3
                      else content1);
          content3 = (if endsWith content2 ''```'' then slice_to_end_minus content2 3
                      else content2)
      in trim content3)"

definition caught :: "thrown \<Rightarrow> string IPCResponse" where
  "caught t =
     Failure (case t of Error m \<Rightarrow> m | NonError \<Rightarrow> ''Failed to generate diagram'')
             ''DIAGRAM_GENERATION_FAILED''"

definition diagramRequest :: "string \<Rightarrow> string \<Rightarrow> string \<Rightarrow> string option \<Rightarrow> chat_request" where
  "diagramRequest apiKey m prompt existingDiagram =
     \<lparr>rq_apiKey = apiKey, rq_model = m, rq_system = systemPrompt existingDiagram,
      rq_user = prompt, rq_params = buildCompletionParams m 4096 (Some (7 / 10))\<rparr>"

definition generateMermaidDiagram ::
  "platform \<Rightarrow> SettingsService \<Rightarrow> provider \<Rightarrow> string \<Rightarrow> string option \<Rightarrow> string IPCResponse" where
  "generateMermaidDiagram os svc chat prompt existingDiagram =
     (case getClient os svc of
        Inl t \<Rightarrow> caught t
      | Inr apiKey \<Rightarrow>
          (case chat (diagramRequest apiKey (getOpenAIModel svc) prompt existingDiagram) of
             Inl t \<Rightarrow> caught t
           | Inr response \<Rightarrow>
               (case response of
                  None \<Rightarrow> caught (Error ''Empty diagram content returned'')
                | Some content \<Rightarrow>
                    if content = [] \<or> length (trim content) = 0
                    then caught (Error ''Empty diagram content returned'')
                    else Success (stripFences content))))"

section \<open>Example stores\<close>

text \<open>Concrete states of the store, used to run the operations. The empty store has a clock
  that counts up from 1000 and a random source that yields \<open>r0\<close>, \<open>r1\<close>, ...; the other stores
  are the ones the operations reach from it, or are given file by file.\<close>

definition emptyStore :: world where
  "emptyStore =
     \<lparr>files = Map.empty, writeProtected = (\<lambda>p. False), clock = (\<lambda>n. 1000 + int n), ticks = 0,
      random = (\<lambda>n. ''r'' @ showNat n), draws = 0\<rparr>"

definition flowDoc :: DiagramFile where
  "flowDoc = \<lparr>d_id = ''1000-r0'', d_name = Some (str ''Flow''), d_content = str ''graph TD'', d_prompt = None,
      d_createdAt = Some 1001, d_updatedAt = Some 1001\<rparr>"

definition flowStore :: world where
  "flowStore =
     \<lparr>files = [getDiagramPath ''1000-r0'' \<mapsto> Text (str ''graph TD''),
               getMetadataPath \<mapsto> Json (Object [(''1000-r0'',
                  \<lparr>dm_id = Some ''1000-r0'', dm_name = Some (str ''Flow''), dm_prompt = None,
                   dm_createdAt = Some 1001, dm_updatedAt = 1001\<rparr>)]),
               getVersionPath ''1000-r0'' ''1002-r1'' \<mapsto> Text (str ''graph TD''),
               getVersionsMetadataPath ''1000-r0'' \<mapsto> Json (Array
                 [\<lparr>vm_id = ''1002-r1'', vm_diagramId = ''1000-r0'', vm_prompt = None,
                   vm_createdAt = 1003\<rparr>])],
      writeProtected = (\<lambda>p. False), clock = (\<lambda>n. 1000 + int n), ticks = 4,
      random = (\<lambda>n. ''r'' @ showNat n), draws = 2\<rparr>"

definition flowDoc2 :: DiagramFile where
  "flowDoc2 = \<lparr>d_id = ''1000-r0'', d_name = Some (str ''Flow''), d_content = str ''graph LR'',
      d_prompt = Some (str ''make it LR''), d_createdAt = Some 1001, d_updatedAt = Some 1004\<rparr>"

definition flowStore2 :: world where
  "flowStore2 =
     \<lparr>files = [getVersionPath ''1000-r0'' ''1002-r1'' \<mapsto> Text (str ''graph TD''),
               getDiagramPath ''1000-r0'' \<mapsto> Text (str ''graph LR''),
               getVersionPath ''1000-r0'' ''1005-r2'' \<mapsto> Text (str ''graph LR''),
               getVersionsMetadataPath ''1000-r0'' \<mapsto> Json (Array
                 [\<lparr>vm_id = ''1002-r1'', vm_diagramId = ''1000-r0'', vm_prompt = None,
                   vm_createdAt = 1003\<rparr>,
                  \<lparr>vm_id = ''1005-r2'', vm_diagramId = ''1000-r0'',
                   vm_prompt = Some (str ''make it LR''), vm_createdAt = 1006\<rparr>]),
               getMetadataPath \<mapsto> Json (Object [(''1000-r0'',
                  \<lparr>dm_id = Some ''1000-r0'', dm_name = Some (str ''Flow''), dm_prompt = Some (str ''make it LR''),
                   dm_createdAt = Some 1001, dm_updatedAt = 1004\<rparr>)])],
      writeProtected = (\<lambda>p. False), clock = (\<lambda>n. 1000 + int n), ticks = 7,
      random = (\<lambda>n. ''r'' @ showNat n), draws = 3\<rparr>"

definition flowVersion1 :: DiagramVersion where
  "flowVersion1 = \<lparr>v_id = ''1002-r1'', v_diagramId = ''1000-r0'', v_content = str ''graph TD'',
      v_prompt = None, v_createdAt = 1003\<rparr>"

definition flowVersion2 :: DiagramVersion where
  "flowVersion2 = \<lparr>v_id = ''1005-r2'', v_diagramId = ''1000-r0'', v_content = str ''graph LR'',
      v_prompt = Some (str ''make it LR''), v_createdAt = 1006\<rparr>"

definition flowDoc3 :: DiagramFile where
  "flowDoc3 = \<lparr>d_id = ''1000-r0'', d_name = Some (str ''Flow''), d_content = str ''graph BT'',
      d_prompt = Some (str ''make it LR''), d_createdAt = Some 1001, d_updatedAt = Some 1007\<rparr>"

definition flowStore3 :: world where
  "flowStore3 =
     \<lparr>files = [getVersionPath ''1000-r0'' ''1002-r1'' \<mapsto> Text (str ''graph TD''),
               getVersionPath ''1000-r0'' ''1005-r2'' \<mapsto> Text (str ''graph LR''),
               getDiagramPath ''1000-r0'' \<mapsto> Text (str ''graph BT''),
               getVersionPath ''1000-r0'' ''1008-r3'' \<mapsto> Text (str ''graph BT''),
               getVersionsMetadataPath ''1000-r0'' \<mapsto> Json (Array
                 [\<lparr>vm_id = ''1002-r1'', vm_diagramId = ''1000-r0'', vm_prompt = None,
                   vm_createdAt = 1003\<rparr>,
                  \<lparr>vm_id = ''1005-r2'', vm_diagramId = ''1000-r0'',
                   vm_prompt = Some (str ''make it LR''), vm_createdAt = 1006\<rparr>,
                  \<lparr>vm_id = ''1008-r3'', vm_diagramId = ''1000-r0'', vm_prompt = None,
                   vm_createdAt = 1009\<rparr>]),
               getMetadataPath \<mapsto> Json (Object [(''1000-r0'',
                  \<lparr>dm_id = Some ''1000-r0'', dm_name = Some (str ''Flow''), dm_prompt = Some (str ''make it LR''),
                   dm_createdAt = Some 1001, dm_updatedAt = 1007\<rparr>)])],
      writeProtected = (\<lambda>p. False), clock = (\<lambda>n. 1000 + int n), ticks = 10,
      random = (\<lambda>n. ''r'' @ showNat n), draws = 4\<rparr>"

definition restoredDoc :: DiagramFile where
  "restoredDoc = \<lparr>d_id = ''1000-r0'', d_name = Some (str ''Flow''), d_content = str ''graph TD'',
      d_prompt = Some (str ''make it LR''), d_createdAt = Some 1001, d_updatedAt = Some 1007\<rparr>"

definition restoredStore :: world where
  "restoredStore =
     \<lparr>files = [getVersionPath ''1000-r0'' ''1002-r1'' \<mapsto> Text (str ''graph TD''),
               getVersionPath ''1000-r0'' ''1005-r2'' \<mapsto> Text (str ''graph LR''),
               getDiagramPath ''1000-r0'' \<mapsto> Text (str ''graph TD''),
               getVersionPath ''1000-r0'' ''1008-r3'' \<mapsto> Text (str ''graph TD''),
               getVersionsMetadataPath ''1000-r0'' \<mapsto> Json (Array
                 [\<lparr>vm_id = ''1002-r1'', vm_diagramId = ''1000-r0'', vm_prompt = None,
                   vm_createdAt = 1003\<rparr>,
                  \<lparr>vm_id = ''1005-r2'', vm_diagramId = ''1000-r0'',
                   vm_prompt = Some (str ''make it LR''), vm_createdAt = 1006\<rparr>,
                  \<lparr>vm_id = ''1008-r3'', vm_diagramId = ''1000-r0'', vm_prompt = None,
                   vm_createdAt = 1009\<rparr>]),
               getMetadataPath \<mapsto> Json (Object [(''1000-r0'',
                  \<lparr>dm_id = Some ''1000-r0'', dm_name = Some (str ''Flow''), dm_prompt = Some (str ''make it LR''),
                   dm_createdAt = Some 1001, dm_updatedAt = 1007\<rparr>)])],
      writeProtected = (\<lambda>p. False), clock = (\<lambda>n. 1000 + int n), ticks = 10,
      random = (\<lambda>n. ''r'' @ showNat n), draws = 4\<rparr>"

definition restoredVersion :: DiagramVersion where
  "restoredVersion = \<lparr>v_id = ''1008-r3'', v_diagramId = ''1000-r0'', v_content = str ''graph TD'',
      v_prompt = None, v_createdAt = 1009\<rparr>"


definition shelf :: world where
  "shelf =
     \<lparr>files = [getMetadataPath \<mapsto> Json (Object
                 [(''10-a'', \<lparr>dm_id = Some ''10-a'', dm_name = Some (str ''first''), dm_prompt = None,
                             dm_createdAt = Some 10, dm_updatedAt = 11\<rparr>),
                  (''20-b'', \<lparr>dm_id = Some ''20-b'', dm_name = Some (str ''second''), dm_prompt = None,
                             dm_createdAt = Some 20, dm_updatedAt = 33\<rparr>),
                  (''25-x'', \<lparr>dm_id = Some ''25-x'', dm_name = Some (str ''orphan''), dm_prompt = None,
                             dm_createdAt = Some 25, dm_updatedAt = 44\<rparr>),
                  (''30-c'', \<lparr>dm_id = Some ''30-c'', dm_name = Some (str ''third''), dm_prompt = None,
                             dm_createdAt = Some 30, dm_updatedAt = 22\<rparr>)]),
               getDiagramPath ''10-a'' \<mapsto> Text (str ''pie''),
               getDiagramPath ''20-b'' \<mapsto> Text (str ''gantt''),
               getDiagramPath ''30-c'' \<mapsto> Text (str ''mindmap'')],
      writeProtected = (\<lambda>p. False), clock = (\<lambda>n. 1000 + int n), ticks = 0,
      random = (\<lambda>n. ''r'' @ showNat n), draws = 0\<rparr>"

definition shelfListing :: "DiagramFile list" where
  "shelfListing =
     [\<lparr>d_id = ''20-b'', d_name = Some (str ''second''), d_content = str ''gantt'', d_prompt = None,
       d_createdAt = Some 20, d_updatedAt = Some 33\<rparr>,
      \<lparr>d_id = ''30-c'', d_name = Some (str ''third''), d_content = str ''mindmap'', d_prompt = None,
       d_createdAt = Some 30, d_updatedAt = Some 22\<rparr>,
      \<lparr>d_id = ''10-a'', d_name = Some (str ''first''), d_content = str ''pie'', d_prompt = None,
       d_createdAt = Some 10, d_updatedAt = Some 11\<rparr>]"




text \<open>The store \<open>shelf\<close> after its second document has been renamed.\<close>

definition relabelledDoc :: DiagramFile where
  "relabelledDoc = \<lparr>d_id = ''20-b'', d_name = Some (str ''timeline''), d_content = str ''gantt'',
      d_prompt = None, d_createdAt = Some 20, d_updatedAt = Some 1000\<rparr>"

definition relabelledShelf :: world where
  "relabelledShelf =
     \<lparr>files = [getDiagramPath ''10-a'' \<mapsto> Text (str ''pie''),
               getDiagramPath ''20-b'' \<mapsto> Text (str ''gantt''),
               getDiagramPath ''30-c'' \<mapsto> Text (str ''mindmap''),
               getMetadataPath \<mapsto> Json (Object
                 [(''10-a'', \<lparr>dm_id = Some ''10-a'', dm_name = Some (str ''first''), dm_prompt = None,
                             dm_createdAt = Some 10, dm_updatedAt = 11\<rparr>),
                  (''20-b'', \<lparr>dm_id = Some ''20-b'', dm_name = Some (str ''timeline''), dm_prompt = None,
                             dm_createdAt = Some 20, dm_updatedAt = 1000\<rparr>),
                  (''25-x'', \<lparr>dm_id = Some ''25-x'', dm_name = Some (str ''orphan''), dm_prompt = None,
                             dm_createdAt = Some 25, dm_updatedAt = 44\<rparr>),
                  (''30-c'', \<lparr>dm_id = Some ''30-c'', dm_name = Some (str ''third''), dm_prompt = None,
                             dm_createdAt = Some 30, dm_updatedAt = 22\<rparr>)])],
      writeProtected = (\<lambda>p. False), clock = (\<lambda>n. 1000 + int n), ticks = 1,
      random = (\<lambda>n. ''r'' @ showNat n), draws = 0\<rparr>"
text \<open>Stores in which all calls fall into the same millisecond and the random source repeats
  a suffix it has drawn before, so that \<open>generateId\<close> returns an identifier already in use:
  for the second document created (\<open>sameMsStore\<close>), for the version appended by an update
  (\<open>repeatStore\<close>), and for the version appended by a restore (\<open>restoreRepeatStore\<close>).\<close>

definition sameMsEmpty :: world where
  "sameMsEmpty =
     \<lparr>files = Map.empty, writeProtected = (\<lambda>p. False), clock = (\<lambda>n. 1000), ticks = 0,
      random = (\<lambda>n. if n = 2 then ''r0'' else ''r'' @ showNat n), draws = 0\<rparr>"

definition firstDoc :: DiagramFile where
  "firstDoc = \<lparr>d_id = ''1000-r0'', d_name = Some (str ''A''), d_content = str ''graph TD'', d_prompt = None,
      d_createdAt = Some 1000, d_updatedAt = Some 1000\<rparr>"

definition sameMsStore :: world where
  "sameMsStore =
     \<lparr>files = [getDiagramPath ''1000-r0'' \<mapsto> Text (str ''graph TD''),
               getMetadataPath \<mapsto> Json (Object [(''1000-r0'',
                  \<lparr>dm_id = Some ''1000-r0'', dm_name = Some (str ''A''), dm_prompt = None,
                   dm_createdAt = Some 1000, dm_updatedAt = 1000\<rparr>)]),
               getVersionPath ''1000-r0'' ''1000-r1'' \<mapsto> Text (str ''graph TD''),
               getVersionsMetadataPath ''1000-r0'' \<mapsto> Json (Array
                 [\<lparr>vm_id = ''1000-r1'', vm_diagramId = ''1000-r0'', vm_prompt = None,
                   vm_createdAt = 1000\<rparr>])],
      writeProtected = (\<lambda>p. False), clock = (\<lambda>n. 1000), ticks = 4,
      random = (\<lambda>n. if n = 2 then ''r0'' else ''r'' @ showNat n), draws = 2\<rparr>"



definition firstVersion :: DiagramVersion where
  "firstVersion = \<lparr>v_id = ''1000-r1'', v_diagramId = ''1000-r0'', v_content = str ''graph TD'',
      v_prompt = None, v_createdAt = 1000\<rparr>"

definition repeatStore :: world where
  "repeatStore =
     \<lparr>files = [getDiagramPath ''1000-r0'' \<mapsto> Text (str ''graph TD''),
               getMetadataPath \<mapsto> Json (Object [(''1000-r0'',
                  \<lparr>dm_id = Some ''1000-r0'', dm_name = Some (str ''A''), dm_prompt = None,
                   dm_createdAt = Some 1000, dm_updatedAt = 1000\<rparr>)]),
               getVersionPath ''1000-r0'' ''1000-r1'' \<mapsto> Text (str ''graph TD''),
               getVersionsMetadataPath ''1000-r0'' \<mapsto> Json (Array
                 [\<lparr>vm_id = ''1000-r1'', vm_diagramId = ''1000-r0'', vm_prompt = None,
                   vm_createdAt = 1000\<rparr>])],
      writeProtected = (\<lambda>p. False), clock = (\<lambda>n. 1000), ticks = 4,
      random = (\<lambda>n. if n = 2 then ''r1'' else ''r'' @ showNat n), draws = 2\<rparr>"

definition repeatDoc :: DiagramFile where
  "repeatDoc = \<lparr>d_id = ''1000-r0'', d_name = Some (str ''A''), d_content = str ''graph LR'', d_prompt = None,
      d_createdAt = Some 1000, d_updatedAt = Some 1000\<rparr>"

definition repeatStore2 :: world where
  "repeatStore2 =
     \<lparr>files = [getDiagramPath ''1000-r0'' \<mapsto> Text (str ''graph LR''),
               getVersionPath ''1000-r0'' ''1000-r1'' \<mapsto> Text (str ''graph LR''),
               getVersionsMetadataPath ''1000-r0'' \<mapsto> Json (Array
                 [\<lparr>vm_id = ''1000-r1'', vm_diagramId = ''1000-r0'', vm_prompt = None,
                   vm_createdAt = 1000\<rparr>,
                  \<lparr>vm_id = ''1000-r1'', vm_diagramId = ''1000-r0'', vm_prompt = None,
                   vm_createdAt = 1000\<rparr>]),
               getMetadataPath \<mapsto> Json (Object [(''1000-r0'',
                  \<lparr>dm_id = Some ''1000-r0'', dm_name = Some (str ''A''), dm_prompt = None,
                   dm_createdAt = Some 1000, dm_updatedAt = 1000\<rparr>)])],
      writeProtected = (\<lambda>p. False), clock = (\<lambda>n. 1000), ticks = 7,
      random = (\<lambda>n. if n = 2 then ''r1'' else ''r'' @ showNat n), draws = 3\<rparr>"

definition secondVersion :: DiagramVersion where
  "secondVersion = \<lparr>v_id = ''1000-r2'', v_diagramId = ''1000-r0'', v_content = str ''graph LR'',
      v_prompt = None, v_createdAt = 1000\<rparr>"

definition restoreRepeatStore :: world where
  "restoreRepeatStore =
     \<lparr>files = [getVersionPath ''1000-r0'' ''1000-r1'' \<mapsto> Text (str ''graph TD''),
               getDiagramPath ''1000-r0'' \<mapsto> Text (str ''graph LR''),
               getVersionPath ''1000-r0'' ''1000-r2'' \<mapsto> Text (str ''graph LR''),
               getVersionsMetadataPath ''1000-r0'' \<mapsto> Json (Array
                 [\<lparr>vm_id = ''1000-r1'', vm_diagramId = ''1000-r0'', vm_prompt = None,
                   vm_createdAt = 1000\<rparr>,
                  \<lparr>vm_id = ''1000-r2'', vm_diagramId = ''1000-r0'', vm_prompt = None,
                   vm_createdAt = 1000\<rparr>]),
               getMetadataPath \<mapsto> Json (Object [(''1000-r0'',
                  \<lparr>dm_id = Some ''1000-r0'', dm_name = Some (str ''A''), dm_prompt = None,
                   dm_createdAt = Some 1000, dm_updatedAt = 1000\<rparr>)])],
      writeProtected = (\<lambda>p. False), clock = (\<lambda>n. 1000), ticks = 7,
      random = (\<lambda>n. if n = 3 then ''r2'' else ''r'' @ showNat n), draws = 3\<rparr>"

definition restoreRepeatDoc :: DiagramFile where
  "restoreRepeatDoc = \<lparr>d_id = ''1000-r0'', d_name = Some (str ''A''), d_content = str ''graph TD'',
      d_prompt = None, d_createdAt = Some 1000, d_updatedAt = Some 1000\<rparr>"

definition restoreRepeatStore2 :: world where
  "restoreRepeatStore2 =
     \<lparr>files = [getVersionPath ''1000-r0'' ''1000-r1'' \<mapsto> Text (str ''graph TD''),
               getDiagramPath ''1000-r0'' \<mapsto> Text (str ''graph TD''),
               getVersionPath ''1000-r0'' ''1000-r2'' \<mapsto> Text (str ''graph TD''),
               getVersionsMetadataPath ''1000-r0'' \<mapsto> Json (Array
                 [\<lparr>vm_id = ''1000-r1'', vm_diagramId = ''1000-r0'', vm_prompt = None,
                   vm_createdAt = 1000\<rparr>,
                  \<lparr>vm_id = ''1000-r2'', vm_diagramId = ''1000-r0'', vm_prompt = None,
                   vm_createdAt = 1000\<rparr>,
                  \<lparr>vm_id = ''1000-r2'', vm_diagramId = ''1000-r0'', vm_prompt = None,
                   vm_createdAt = 1000\<rparr>]),
               getMetadataPath \<mapsto> Json (Object [(''1000-r0'',
                  \<lparr>dm_id = Some ''1000-r0'', dm_name = Some (str ''A''), dm_prompt = None,
                   dm_createdAt = Some 1000, dm_updatedAt = 1000\<rparr>)])],
      writeProtected = (\<lambda>p. False), clock = (\<lambda>n. 1000), ticks = 10,
      random = (\<lambda>n. if n = 3 then ''r2'' else ''r'' @ showNat n), draws = 4\<rparr>"

text \<open>Contents outside ASCII: a text with a line break, a CJK character and an emoji (a
  surrogate pair), and a text that ends in the first half of a surrogate pair, with what is
  read back after it has been written. The stores are the empty store after a document with
  such a content has been created in it.\<close>

definition noteText :: jsstring where
  "noteText = str ''graph TD'' @ [0x000A, 0x4E2D, 0xD83D, 0xDE00]"

definition halfPair :: jsstring where
  "halfPair = str ''pie '' @ [0xD83D]"

definition halfPairRead :: jsstring where
  "halfPairRead = str ''pie '' @ [0xFFFD]"





text \<open>The store \<open>flowStore\<close> after the document has been updated with that content.\<close>

definition halfPairDoc2 :: DiagramFile where
  "halfPairDoc2 = \<lparr>d_id = ''1000-r0'', d_name = Some (str ''Flow''), d_content = halfPair,
      d_prompt = None, d_createdAt = Some 1001, d_updatedAt = Some 1004\<rparr>"

definition halfPairStore2 :: world where
  "halfPairStore2 =
     \<lparr>files = [getVersionPath ''1000-r0'' ''1002-r1'' \<mapsto> Text (str ''graph TD''),
               getDiagramPath ''1000-r0'' \<mapsto> Text halfPair,
               getVersionPath ''1000-r0'' ''1005-r2'' \<mapsto> Text halfPair,
               getVersionsMetadataPath ''1000-r0'' \<mapsto> Json (Array
                 [\<lparr>vm_id = ''1002-r1'', vm_diagramId = ''1000-r0'', vm_prompt = None,
                   vm_createdAt = 1003\<rparr>,
                  \<lparr>vm_id = ''1005-r2'', vm_diagramId = ''1000-r0'', vm_prompt = None,
                   vm_createdAt = 1006\<rparr>]),
               getMetadataPath \<mapsto> Json (Object [(''1000-r0'',
                  \<lparr>dm_id = Some ''1000-r0'', dm_name = Some (str ''Flow''), dm_prompt = None,
                   dm_createdAt = Some 1001, dm_updatedAt = 1004\<rparr>)])],
      writeProtected = (\<lambda>p. False), clock = (\<lambda>n. 1000 + int n), ticks = 7,
      random = (\<lambda>n. ''r'' @ showNat n), draws = 3\<rparr>"






text \<open>An example platform: standard base64 for the \<^verbatim>\<open>Buffer\<close> conversions, and a stand-in for
  the operating system's cipher, which prefixes a version tag and reverses the string.\<close>

definition base64Alphabet :: string where
  "base64Alphabet = ''ABCDEFGHIJKLMNOPQRSTUVWXYZabcdefghijklmnopqrstuvwxyz0123456789+/''"

definition sextetChar :: "nat \<Rightarrow> char" where
  "sextetChar n = base64Alphabet ! n"

fun base64Encode :: "string \<Rightarrow> string" where
  "base64Encode [] = []"
| "base64Encode [a] =
     [sextetChar (of_char a div 4), sextetChar ((of_char a mod 4) * 16), CHR ''='', CHR ''='']"
| "base64Encode [a, b] =
     [sextetChar (of_char a div 4), sextetChar ((of_char a mod 4) * 16 + of_char b div 16),
      sextetChar ((of_char b mod 16) * 4), CHR ''='']"
| "base64Encode (a # b # c # rest) =
     [sextetChar (of_char a div 4), sextetChar ((of_char a mod 4) * 16 + of_char b div 16),
      sextetChar ((of_char b mod 16) * 4 + of_char c div 64), sextetChar (of_char c mod 64)]
     @ base64Encode rest"

fun sextetOf :: "string \<Rightarrow> nat \<Rightarrow> char \<Rightarrow> nat option" where
  "sextetOf [] n c = None"
| "sextetOf (a # alphabet) n c = (if a = c then Some n else sextetOf alphabet (Suc n) c)"

fun sextets :: "string \<Rightarrow> nat list" where
  "sextets [] = []"
| "sextets (c # s) =
     (case sextetOf base64Alphabet 0 c of None \<Rightarrow> [] | Some n \<Rightarrow> n # sextets s)"

fun octets :: "nat list \<Rightarrow> string" where
  "octets (p # q # r # s # rest) =
     [char_of (p * 4 + q div 16), char_of ((q mod 16) * 16 + r div 4),
      char_of ((r mod 4) * 64 + s)] @ octets rest"
| "octets [p, q, r] = [char_of (p * 4 + q div 16), char_of ((q mod 16) * 16 + r div 4)]"
| "octets [p, q] = [char_of (p * 4 + q div 16)]"
| "octets rest = []"

definition base64Decode :: "string \<Rightarrow> string" where
  "base64Decode s = octets (sextets s)"

definition examplePlatform :: platform where
  "examplePlatform =
     \<lparr>isEncryptionAvailable = True,
      encryptString = (\<lambda>s. Some (''v10'' @ rev s)),
      decryptString = (\<lambda>b. if take 3 b = ''v10'' then Some (rev (drop 3 b)) else None),
      toBase64 = base64Encode,
      fromBase64 = base64Decode\<rparr>"

definition legacySettings :: SettingsService where
  "legacySettings =
     \<lparr>settings = [(''openai_api_key'', ''sk-old''), (''openai_model'', ''gpt-4o'')],
      settingsFile = Some [(''openai_api_key'', ''sk-old''), (''openai_model'', ''gpt-4o'')],
      settingsFileLocked = False\<rparr>"

definition securedSettings :: SettingsService where
  "securedSettings =
     \<lparr>settings = [(''openai_model'', ''gpt-4o''), (''openai_api_key_encrypted'', ''djEwMS1rcw=='')],
      settingsFile = Some [(''openai_model'', ''gpt-4o''),
                           (''openai_api_key_encrypted'', ''djEwMS1rcw=='')],
      settingsFileLocked = False\<rparr>"

definition fencedAnswer :: string where
  "fencedAnswer = ''  ```mermaid'' @ newline @ ''graph TD'' @ newline @ ''```'' @ newline"

definition fencedProvider :: provider where
  "fencedProvider = (\<lambda>request. Inr (Some fencedAnswer))"

definition silentProvider :: provider where
  "silentProvider = (\<lambda>request. Inr None)"

section \<open>What the operations do to the files\<close>

lemma code_unit_of_char:
  "unat (of_nat (of_char c) :: 16 word) = of_char c"
proof -
  have "(of_char c :: nat) < 256" by (rule nat_of_char_less_256)
  also have "(256 :: nat) < 2 ^ LENGTH(16)" by simp
  finally have "(of_char c :: nat) < 2 ^ LENGTH(16)" .
  then show ?thesis by (simp add: unat_of_nat)
qed

lemma str_eq [simp]: "str a = str b \<longleftrightarrow> a = b"
proof -
  have "inj (\<lambda>c. of_nat (of_char c) :: 16 word)"
  proof (rule injI)
    fix x y :: char
    assume "(of_nat (of_char x) :: 16 word) = of_nat (of_char y)"
    then have "unat (of_nat (of_char x) :: 16 word) = unat (of_nat (of_char y) :: 16 word)"
      by simp
    then have "(of_char x :: nat) = of_char y"
      by (simp only: code_unit_of_char)
    then show "x = y" by simp
  qed
  then show ?thesis
    by (simp add: str_def inj_map_eq_map)
qed

lemma str_Nil [simp]: "str [] = []" "str s = [] \<longleftrightarrow> s = []" "[] = str s \<longleftrightarrow> s = []"
  by (auto simp: str_def)

lemma str_not_surrogate:
  "u \<in> set (str s) \<Longrightarrow> \<not> isHighSurrogate u \<and> \<not> isLowSurrogate u"
proof -
  assume "u \<in> set (str s)"
  then obtain c where u: "u = of_nat (of_char c)"
    by (auto simp: str_def)
  have "unat u < 256"
    unfolding u code_unit_of_char by (rule nat_of_char_less_256)
  then show ?thesis
    by (simp add: isHighSurrogate_def isLowSurrogate_def word_le_nat_alt)
qed

lemma no_surrogate_toWellFormed:
  "\<forall>u \<in> set s. \<not> isHighSurrogate u \<and> \<not> isLowSurrogate u \<Longrightarrow> toWellFormed s = s"
  by (induction s rule: toWellFormed.induct) simp_all

lemma toWellFormed_str [simp]: "toWellFormed (str s) = str s"
  by (rule no_surrogate_toWellFormed) (simp add: str_not_surrogate)

lemma replacement_not_surrogate [simp]:
  "\<not> isHighSurrogate 0xFFFD" "\<not> isLowSurrogate 0xFFFD"
  by (simp_all add: isHighSurrogate_def isLowSurrogate_def)

lemma toWellFormed_idem [simp]: "toWellFormed (toWellFormed s) = toWellFormed s"
proof (induction s rule: toWellFormed.induct)
  case 1
  then show ?case by simp
next
  case (2 u)
  then show ?case by simp
next
  case (3 u v us)
  show ?case
  proof (cases "isHighSurrogate u \<and> isLowSurrogate v")
    case True
    with 3 show ?thesis by simp
  next
    case False
    note nopair = this
    obtain x xs where tw: "toWellFormed (v # us) = x # xs"
      by (cases "toWellFormed (v # us)") (auto split: if_splits elim: toWellFormed.elims)
    have x: "isLowSurrogate x \<Longrightarrow> isLowSurrogate v"
      using tw by (cases us) (auto split: if_splits)
    show ?thesis
    proof (cases "isHighSurrogate u \<or> isLowSurrogate u")
      case True
      with nopair 3 tw show ?thesis by simp
    next
      case False
      with nopair 3 tw x show ?thesis by auto
    qed
  qed
qed

lemmas path_defs =
  getMetadataPath_def getDiagramPath_def getVersionsMetadataPath_def getVersionPath_def
  path_join_def diagramsDir_def versionsDir_def

lemma differ_at_end: "last a \<noteq> last b \<Longrightarrow> a \<noteq> [] \<Longrightarrow> b \<noteq> [] \<Longrightarrow> xs @ a \<noteq> ys @ b"
  by (metis last_appendR)

lemma path_eq [simp]:
  "getDiagramPath i = getDiagramPath j \<longleftrightarrow> i = j"
  "getVersionsMetadataPath i = getVersionsMetadataPath j \<longleftrightarrow> i = j"
  "getVersionPath i v = getVersionPath i v' \<longleftrightarrow> v = v'"
  by (simp_all add: path_defs)

lemma content_path_not_index [simp]:
  "getDiagramPath i \<noteq> getMetadataPath" "getMetadataPath \<noteq> getDiagramPath i"
  "getDiagramPath i \<noteq> getVersionsMetadataPath j" "getVersionsMetadataPath j \<noteq> getDiagramPath i"
  "getVersionPath i v \<noteq> getMetadataPath" "getMetadataPath \<noteq> getVersionPath i v"
  "getVersionPath i v \<noteq> getVersionsMetadataPath j" "getVersionsMetadataPath j \<noteq> getVersionPath i v"
proof -
  have mmd: "xs @ ''.mmd'' \<noteq> ys @ ''.json''" for xs ys :: string
    by (rule differ_at_end) simp_all
  have a: "getDiagramPath i \<noteq> getMetadataPath"
    using mmd [of "''diagrams/'' @ i" "''diagrams/metadata''"] by (simp add: path_defs)
  have b: "getDiagramPath i \<noteq> getVersionsMetadataPath j"
    using mmd [of "''diagrams/'' @ i" "''diagrams/versions/'' @ j @ ''-versions''"]
    by (simp add: path_defs)
  have c: "getVersionPath i v \<noteq> getMetadataPath"
    using mmd [of "''diagrams/versions/'' @ i @ ''-'' @ v" "''diagrams/metadata''"]
    by (simp add: path_defs)
  have d: "getVersionPath i v \<noteq> getVersionsMetadataPath j"
    using mmd [of "''diagrams/versions/'' @ i @ ''-'' @ v" "''diagrams/versions/'' @ j @ ''-versions''"]
    by (simp add: path_defs)
  from a show "getDiagramPath i \<noteq> getMetadataPath" "getMetadataPath \<noteq> getDiagramPath i"
    by simp_all
  from b show "getDiagramPath i \<noteq> getVersionsMetadataPath j"
    "getVersionsMetadataPath j \<noteq> getDiagramPath i" by simp_all
  from c show "getVersionPath i v \<noteq> getMetadataPath" "getMetadataPath \<noteq> getVersionPath i v"
    by simp_all
  from d show "getVersionPath i v \<noteq> getVersionsMetadataPath j"
    "getVersionsMetadataPath j \<noteq> getVersionPath i v" by simp_all
qed

lemma version_index_not_metadata [simp]:
  "getVersionsMetadataPath i \<noteq> getMetadataPath" "getMetadataPath \<noteq> getVersionsMetadataPath i"
  by (simp_all add: path_defs)

lemma version_path_not_content [simp]:
  "getDiagramPath i \<noteq> getVersionPath i v" "getVersionPath i v \<noteq> getDiagramPath i"
proof -
  have "length (getDiagramPath i) \<noteq> length (getVersionPath i v)"
    by (simp add: path_defs)
  then show "getDiagramPath i \<noteq> getVersionPath i v" "getVersionPath i v \<noteq> getDiagramPath i"
    by auto
qed

lemma loadVersionsMetadata_files:
  "files w' (getVersionsMetadataPath i) = files w (getVersionsMetadataPath i) \<Longrightarrow>
   loadVersionsMetadata w' i = loadVersionsMetadata w i"
  by (simp add: loadVersionsMetadata_def existsSync_def)


lemma collectVersions_files:
  "\<forall>m \<in> set ms. files w' (getVersionPath i (vm_id m)) = files w (getVersionPath i (vm_id m)) \<Longrightarrow>
   collectVersions w' i ms = collectVersions w i ms"
  by (induction ms) (simp_all add: existsSync_def readFileSync_def cong: sum.case_cong)

lemma collectVersions_append:
  "collectVersions w i (ms @ ns) =
     (case collectVersions w i ms of Inl e \<Rightarrow> Inl e
      | Inr vs \<Rightarrow> (case collectVersions w i ns of Inl e \<Rightarrow> Inl e | Inr us \<Rightarrow> Inr (vs @ us)))"
  by (induction ms) (simp_all split: sum.splits)

lemma Date_now_effect:
  "Date_now w = (t, w1) \<Longrightarrow> t = clock w (ticks w) \<and> files w1 = files w \<and> clock w1 = clock w
     \<and> ticks w1 = Suc (ticks w) \<and> random w1 = random w \<and> draws w1 = draws w
     \<and> writeProtected w1 = writeProtected w"
  by (auto simp: Date_now_def)

lemma generateId_effect:
  "generateId w = (i, w1) \<Longrightarrow> i = fst (generateId w) \<and> files w1 = files w \<and> clock w1 = clock w
     \<and> ticks w1 = Suc (ticks w) \<and> random w1 = random w \<and> draws w1 = Suc (draws w)
     \<and> writeProtected w1 = writeProtected w"
  by (auto simp: generateId_def Date_now_def Math_random_suffix_def)

lemma writeFileSync_effect:
  "writeFileSync w p x = Inr w1 \<Longrightarrow> files w1 = (files w)(p \<mapsto> x) \<and> clock w1 = clock w
     \<and> ticks w1 = ticks w \<and> random w1 = random w \<and> draws w1 = draws w
     \<and> writeProtected w1 = writeProtected w"
  by (auto simp: writeFileSync_def split: if_splits)


lemma createVersion_steps:
  assumes "createVersion w i c p = Inr (v, w')"
  obtains vid w1 now w2 w3 vs where
    "generateId w = (vid, w1)" "Date_now w1 = (now, w2)"
    "writeFileSync w2 (getVersionPath i vid) (Text c) = Inr w3"
    "loadVersionsMetadata w3 i = Array vs"
    "saveVersionsMetadata w3 i
        (vs @ [\<lparr>vm_id = vid, vm_diagramId = i, vm_prompt = p, vm_createdAt = now\<rparr>]) = Inr w'"
    "v = withContent \<lparr>vm_id = vid, vm_diagramId = i, vm_prompt = p, vm_createdAt = now\<rparr> c"
  using assms
  by (auto simp: createVersion_def Let_def split: prod.splits sum.splits json.splits)

lemma createVersion_Inr:
  assumes "createVersion w i c p = Inr (v, w')"
  obtains vs where
    "loadVersionsMetadata w i = Array vs"
    "files w' = (files w)(getVersionPath i (fst (generateId w)) \<mapsto> Text c,
        getVersionsMetadataPath i \<mapsto> Json (Array (vs @
          [\<lparr>vm_id = fst (generateId w), vm_diagramId = i, vm_prompt = p,
            vm_createdAt = clock w (Suc (ticks w))\<rparr>])))"
    "v = withContent \<lparr>vm_id = fst (generateId w), vm_diagramId = i, vm_prompt = p,
            vm_createdAt = clock w (Suc (ticks w))\<rparr> c"
proof -
  from assms obtain vid w1 now w2 w3 vs where
    g: "generateId w = (vid, w1)" and n: "Date_now w1 = (now, w2)"
    and wr: "writeFileSync w2 (getVersionPath i vid) (Text c) = Inr w3"
    and lv: "loadVersionsMetadata w3 i = Array vs"
    and sv: "saveVersionsMetadata w3 i
        (vs @ [\<lparr>vm_id = vid, vm_diagramId = i, vm_prompt = p, vm_createdAt = now\<rparr>]) = Inr w'"
    and v: "v = withContent \<lparr>vm_id = vid, vm_diagramId = i, vm_prompt = p, vm_createdAt = now\<rparr> c"
    by (rule createVersion_steps)
  note g' = generateId_effect [OF g] and n' = Date_now_effect [OF n]
    and wr' = writeFileSync_effect [OF wr]
    and sv' = writeFileSync_effect [OF sv [unfolded saveVersionsMetadata_def]]
  have now: "now = clock w (Suc (ticks w))" using g' n' by simp
  have vid: "vid = fst (generateId w)" using g' by simp
  have l3: "loadVersionsMetadata w3 i = loadVersionsMetadata w i"
    using g' n' wr' by (intro loadVersionsMetadata_files) simp
  show thesis
  proof (rule that [of vs])
    show "loadVersionsMetadata w i = Array vs"
      using lv l3 by simp
    show "files w' = (files w)(getVersionPath i (fst (generateId w)) \<mapsto> Text c,
        getVersionsMetadataPath i \<mapsto> Json (Array (vs @
          [\<lparr>vm_id = fst (generateId w), vm_diagramId = i, vm_prompt = p,
            vm_createdAt = clock w (Suc (ticks w))\<rparr>])))"
      using g' n' wr' sv' now by simp
    show "v = withContent \<lparr>vm_id = fst (generateId w), vm_diagramId = i, vm_prompt = p,
            vm_createdAt = clock w (Suc (ticks w))\<rparr> c"
      using v now vid by simp
  qed
qed

lemma generateId_hyphen: "CHR ''-'' \<in> set (fst (generateId w))"
  by (simp add: generateId_def Date_now_def Math_random_suffix_def)

lemma generateId_not_proto [simp]: "fst (generateId w) \<noteq> ''__proto__''"
  using generateId_hyphen [of w] by auto

lemma assign_update:
  "i \<noteq> ''__proto__'' \<or> map_of metadata i \<noteq> None \<Longrightarrow>
   assign metadata i e = AList.update i e metadata"
  by (auto simp: assign_def)



lemma update_steps:
  assumes "update w i c p = Inr (d, w')"
  obtains metadata meta now w1 w2 v w3 where
    "loadMetadata w = Object metadata" "getProperty metadata i = Some meta"
    "Date_now w = (now, w1)"
    "writeFileSync w1 (getDiagramPath i) (Text c) = Inr w2"
    "createVersion w2 i c p = Inr (v, w3)"
    "saveMetadata w3 (assign metadata i
        ((spread meta now)\<lparr>dm_prompt := nullish p (prompt_of meta)\<rparr>)) = Inr w'"
    "d = \<lparr>d_id = i, d_name = name_of meta, d_content = c,
          d_prompt = nullish p (prompt_of meta), d_createdAt = createdAt_of meta,
          d_updatedAt = Some now\<rparr>"
  using assms
  by (auto simp: update_def split: option.splits prod.splits sum.splits json.splits)

text \<open>The files after a successful \<open>update\<close>, and the document it returns.\<close>

lemma update_Inr:
  assumes ok: "update w i c p = Inr (d, w')"
  obtains metadata meta vs where
    "loadMetadata w = Object metadata" "getProperty metadata i = Some meta"
    "loadVersionsMetadata w i = Array vs"
    "files w' = (files w)(getDiagramPath i \<mapsto> Text c,
            getVersionPath i (fst (generateId (snd (Date_now w)))) \<mapsto> Text c,
            getVersionsMetadataPath i \<mapsto> Json (Array (vs @
              [\<lparr>vm_id = fst (generateId (snd (Date_now w))), vm_diagramId = i, vm_prompt = p,
                vm_createdAt = clock w (Suc (Suc (ticks w)))\<rparr>])),
            getMetadataPath \<mapsto> Json (Object (assign metadata i
              ((spread meta (clock w (ticks w)))\<lparr>dm_prompt := nullish p (prompt_of meta)\<rparr>))))"
    "d = \<lparr>d_id = i, d_name = name_of meta, d_content = c,
          d_prompt = nullish p (prompt_of meta), d_createdAt = createdAt_of meta,
          d_updatedAt = Some (clock w (ticks w))\<rparr>"
proof -
  from ok obtain metadata meta now w1 w2 v w3 where
    lm: "loadMetadata w = Object metadata" and m: "getProperty metadata i = Some meta"
    and n: "Date_now w = (now, w1)"
    and wr: "writeFileSync w1 (getDiagramPath i) (Text c) = Inr w2"
    and cv: "createVersion w2 i c p = Inr (v, w3)"
    and sv: "saveMetadata w3 (assign metadata i
        ((spread meta now)\<lparr>dm_prompt := nullish p (prompt_of meta)\<rparr>)) = Inr w'"
    and d: "d = \<lparr>d_id = i, d_name = name_of meta, d_content = c,
          d_prompt = nullish p (prompt_of meta), d_createdAt = createdAt_of meta,
          d_updatedAt = Some now\<rparr>"
    by (rule update_steps)
  from cv obtain vs where
    lv2: "loadVersionsMetadata w2 i = Array vs"
    and cv': "files w3 = (files w2)(getVersionPath i (fst (generateId w2)) \<mapsto> Text c,
        getVersionsMetadataPath i \<mapsto> Json (Array (vs @
          [\<lparr>vm_id = fst (generateId w2), vm_diagramId = i, vm_prompt = p,
            vm_createdAt = clock w2 (Suc (ticks w2))\<rparr>])))"
    by (rule createVersion_Inr)
  note n' = Date_now_effect [OF n] and wr' = writeFileSync_effect [OF wr]
    and sv' = writeFileSync_effect [OF sv [unfolded saveMetadata_def]]
  have w1: "w1 = snd (Date_now w)" using n by simp
  have g2: "fst (generateId w2) = fst (generateId w1)"
    using wr' by (simp add: generateId_def Date_now_def Math_random_suffix_def)
  have l2: "loadVersionsMetadata w2 i = loadVersionsMetadata w i"
    using n' wr' by (intro loadVersionsMetadata_files) simp
  have c2: "clock w2 (Suc (ticks w2)) = clock w (Suc (Suc (ticks w)))"
    using n' wr' by simp
  show thesis
  proof (rule that [of metadata meta vs])
    show "loadMetadata w = Object metadata" by (rule lm)
    show "getProperty metadata i = Some meta" by (rule m)
    show "loadVersionsMetadata w i = Array vs" using lv2 l2 by simp
    show "files w' = (files w)(getDiagramPath i \<mapsto> Text c,
            getVersionPath i (fst (generateId (snd (Date_now w)))) \<mapsto> Text c,
            getVersionsMetadataPath i \<mapsto> Json (Array (vs @
              [\<lparr>vm_id = fst (generateId (snd (Date_now w))), vm_diagramId = i, vm_prompt = p,
                vm_createdAt = clock w (Suc (Suc (ticks w)))\<rparr>])),
            getMetadataPath \<mapsto> Json (Object (assign metadata i
              ((spread meta (clock w (ticks w)))\<lparr>dm_prompt := nullish p (prompt_of meta)\<rparr>))))"
      using sv' cv' wr' n' g2 c2 w1 by simp
    show "d = \<lparr>d_id = i, d_name = name_of meta, d_content = c,
          d_prompt = nullish p (prompt_of meta), d_createdAt = createdAt_of meta,
          d_updatedAt = Some (clock w (ticks w))\<rparr>"
      using d n' by simp
  qed
qed

text \<open>For a document with an entry of its own, \<open>getById\<close> after \<open>update\<close> gives the returned
  document, with the content as it is read back from the file.\<close>

lemma update_read_back:
  assumes ok: "update w i c p = Inr (d, w')"
      and lm: "loadMetadata w = Object metadata"
      and own: "map_of metadata i = Some entry"
  shows "getById w' i = Inr (Some (d\<lparr>d_content := toWellFormed c\<rparr>))"
    and "d = \<lparr>d_id = i, d_name = dm_name entry, d_content = c,
          d_prompt = nullish p (dm_prompt entry), d_createdAt = dm_createdAt entry,
          d_updatedAt = Some (clock w (ticks w))\<rparr>"
    and "loadMetadata w' = Object (AList.update i
           (entry\<lparr>dm_prompt := nullish p (dm_prompt entry), dm_updatedAt := clock w (ticks w)\<rparr>)
           metadata)"
proof -
  from ok obtain metadata' meta vs where
    lm': "loadMetadata w = Object metadata'" and m: "getProperty metadata' i = Some meta"
    and f: "files w' = (files w)(getDiagramPath i \<mapsto> Text c,
            getVersionPath i (fst (generateId (snd (Date_now w)))) \<mapsto> Text c,
            getVersionsMetadataPath i \<mapsto> Json (Array (vs @
              [\<lparr>vm_id = fst (generateId (snd (Date_now w))), vm_diagramId = i, vm_prompt = p,
                vm_createdAt = clock w (Suc (Suc (ticks w)))\<rparr>])),
            getMetadataPath \<mapsto> Json (Object (assign metadata' i
              ((spread meta (clock w (ticks w)))\<lparr>dm_prompt := nullish p (prompt_of meta)\<rparr>))))"
    and d: "d = \<lparr>d_id = i, d_name = name_of meta, d_content = c,
          d_prompt = nullish p (prompt_of meta), d_createdAt = createdAt_of meta,
          d_updatedAt = Some (clock w (ticks w))\<rparr>"
    by (rule update_Inr)
  have mm: "metadata' = metadata" using lm lm' by simp
  have meta: "meta = Entry entry"
    using m own mm by (simp add: getProperty_def)
  let ?e = "entry\<lparr>dm_prompt := nullish p (dm_prompt entry), dm_updatedAt := clock w (ticks w)\<rparr>"
  have "(spread meta (clock w (ticks w)))\<lparr>dm_prompt := nullish p (prompt_of meta)\<rparr> = ?e"
    using meta by (cases entry) simp
  then have as: "assign metadata i ((spread meta (clock w (ticks w)))\<lparr>dm_prompt := nullish p (prompt_of meta)\<rparr>)
      = AList.update i ?e metadata"
    using own by (simp add: assign_update)
  show l': "loadMetadata w' = Object (AList.update i ?e metadata)"
    using f as mm by (simp add: loadMetadata_def existsSync_def)
  show d': "d = \<lparr>d_id = i, d_name = dm_name entry, d_content = c,
          d_prompt = nullish p (dm_prompt entry), d_createdAt = dm_createdAt entry,
          d_updatedAt = Some (clock w (ticks w))\<rparr>"
    using d meta by simp
  have gp: "getProperty (AList.update i ?e metadata) i = Some (Entry ?e)"
    by (simp add: getProperty_def update_conv')
  have cf: "files w' (getDiagramPath i) = Some (Text c)"
    using f by simp
  show "getById w' i = Inr (Some (d\<lparr>d_content := toWellFormed c\<rparr>))"
    using l' gp cf d'
    by (simp add: getById_def existsSync_def readFileSync_def materialize_def)
qed

lemma collectVersions_snoc:
  "collectVersions w i ms = Inr xs \<Longrightarrow>
   files w (getVersionPath i (vm_id m)) = Some (Text c) \<Longrightarrow>
   collectVersions w i (ms @ [m]) = Inr (xs @ [withContent m (toWellFormed c)])"
  by (simp add: collectVersions_append existsSync_def readFileSync_def)

lemma collectVersions_member:
  "collectVersions w i ms = Inr vs \<Longrightarrow> v \<in> set vs \<Longrightarrow> v_id v \<in> vm_id ` set ms"
proof (induction ms arbitrary: vs)
  case Nil
  then show ?case by simp
next
  case (Cons m ms)
  show ?case
  proof (cases "existsSync w (getVersionPath i (vm_id m))")
    case False
    with Cons show ?thesis by auto
  next
    case True
    with Cons.prems obtain c us where us: "collectVersions w i ms = Inr us"
      and vs: "vs = withContent m c # us"
      by (auto split: sum.splits)
    from Cons.prems(2) vs consider "v = withContent m c" | "v \<in> set us" by auto
    then show ?thesis
    proof cases
      case 1
      then show ?thesis by (simp add: withContent_def)
    next
      case 2
      from Cons.IH [OF us 2] show ?thesis by auto
    qed
  qed
qed

lemma find_snoc_other:
  "\<not> P y \<Longrightarrow> find P (xs @ [y]) = find P xs"
  by (induction xs) simp_all

text \<open>The version index and the versions after a successful \<open>update\<close>. The identifier of
  the new version is \<open>fst (generateId (snd (Date_now w)))\<close>.\<close>

lemma update_versions:
  assumes ok: "update w i c p = Inr (d, w')"
  shows "\<exists>vs. loadVersionsMetadata w i = Array vs
    \<and> loadVersionsMetadata w' i = Array (vs @
        [\<lparr>vm_id = fst (generateId (snd (Date_now w))), vm_diagramId = i, vm_prompt = p,
          vm_createdAt = clock w (Suc (Suc (ticks w)))\<rparr>])
    \<and> (\<forall>vid. vid \<noteq> fst (generateId (snd (Date_now w))) \<longrightarrow>
          getVersion w' i vid = getVersion w i vid)
    \<and> (fst (generateId (snd (Date_now w))) \<notin> vm_id ` set vs \<longrightarrow>
        (\<forall>olds. listVersions w i = Inr olds \<longrightarrow>
           (\<exists>news. listVersions w' i = Inr news
             \<and> mset news = add_mset
                  (withContent \<lparr>vm_id = fst (generateId (snd (Date_now w))), vm_diagramId = i,
                      vm_prompt = p, vm_createdAt = clock w (Suc (Suc (ticks w)))\<rparr>
                     (toWellFormed c))
                  (mset olds))))"
proof -
  let ?vid = "fst (generateId (snd (Date_now w)))"
  let ?nv = "\<lparr>vm_id = ?vid, vm_diagramId = i, vm_prompt = p,
                vm_createdAt = clock w (Suc (Suc (ticks w)))\<rparr>"
  from ok obtain metadata meta vs where
    lv: "loadVersionsMetadata w i = Array vs"
    and f: "files w' = (files w)(getDiagramPath i \<mapsto> Text c,
            getVersionPath i ?vid \<mapsto> Text c,
            getVersionsMetadataPath i \<mapsto> Json (Array (vs @ [?nv])),
            getMetadataPath \<mapsto> Json (Object (assign metadata i
              ((spread meta (clock w (ticks w)))\<lparr>dm_prompt := nullish p (prompt_of meta)\<rparr>))))"
    by (rule update_Inr)
  have idx: "loadVersionsMetadata w' i = Array (vs @ [?nv])"
    using f by (simp add: loadVersionsMetadata_def existsSync_def)
  have other: "files w' (getVersionPath i vid) = files w (getVersionPath i vid)"
    if "vid \<noteq> ?vid" for vid
    using f that by simp
  have gv: "getVersion w' i vid = getVersion w i vid" if ne: "vid \<noteq> ?vid" for vid
  proof -
    have "find (\<lambda>v. vm_id v = vid) (vs @ [?nv]) = find (\<lambda>v. vm_id v = vid) vs"
      using ne by (intro find_snoc_other) simp
    moreover have "existsSync w' (getVersionPath i vid) = existsSync w (getVersionPath i vid)"
      "readFileSync w' (getVersionPath i vid) = readFileSync w (getVersionPath i vid)"
      using other [OF ne] by (simp_all add: existsSync_def readFileSync_def)
    ultimately show ?thesis
      using idx lv by (simp add: getVersion_def cong: option.case_cong if_cong)
  qed
  have grow: "\<exists>news. listVersions w' i = Inr news
        \<and> mset news = add_mset (withContent ?nv (toWellFormed c)) (mset olds)"
    if fresh: "?vid \<notin> vm_id ` set vs" and before: "listVersions w i = Inr olds" for olds
  proof -
    from fresh have newid: "\<forall>m \<in> set vs. vm_id m \<noteq> ?vid"
      by (metis imageI)
    have same: "\<forall>m \<in> set vs.
        files w' (getVersionPath i (vm_id m)) = files w (getVersionPath i (vm_id m))"
      using other newid by simp
    from before lv obtain xs where xs: "collectVersions w i vs = Inr xs"
      and olds: "olds = sort_key (\<lambda>v. - v_createdAt v) xs"
      by (auto simp: listVersions_def split: sum.splits)
    have cold: "collectVersions w' i vs = Inr xs"
      using collectVersions_files [OF same] xs by simp
    have new: "files w' (getVersionPath i (vm_id ?nv)) = Some (Text c)"
      using f by simp
    have "collectVersions w' i (vs @ [?nv]) = Inr (xs @ [withContent ?nv (toWellFormed c)])"
      using cold new by (rule collectVersions_snoc)
    then have "listVersions w' i
        = Inr (sort_key (\<lambda>v. - v_createdAt v) (xs @ [withContent ?nv (toWellFormed c)]))"
      using idx by (simp add: listVersions_def)
    moreover have "mset (sort_key (\<lambda>v. - v_createdAt v) (xs @ [withContent ?nv (toWellFormed c)]))
        = add_mset (withContent ?nv (toWellFormed c)) (mset olds)"
      using olds by simp
    ultimately show ?thesis by blast
  qed
  from lv idx gv grow show ?thesis
    by blast
qed

lemma getProperty_assign:
  "getProperty metadata i = Some meta \<Longrightarrow> \<exists>meta'. getProperty (assign metadata i e) i = Some meta'"
  by (auto simp: getProperty_def assign_def update_conv' split: option.splits if_splits)

text \<open>After a successful \<open>update\<close>, \<open>getById\<close> finds a document, with the content as it is read
  back.\<close>

lemma update_getById:
  assumes ok: "update w i c p = Inr (d, w')"
  shows "\<exists>d'. getById w' i = Inr (Some d') \<and> d_content d' = toWellFormed c"
proof -
  from ok obtain metadata meta vs where
    m: "getProperty metadata i = Some meta"
    and f: "files w' = (files w)(getDiagramPath i \<mapsto> Text c,
            getVersionPath i (fst (generateId (snd (Date_now w)))) \<mapsto> Text c,
            getVersionsMetadataPath i \<mapsto> Json (Array (vs @
              [\<lparr>vm_id = fst (generateId (snd (Date_now w))), vm_diagramId = i, vm_prompt = p,
                vm_createdAt = clock w (Suc (Suc (ticks w)))\<rparr>])),
            getMetadataPath \<mapsto> Json (Object (assign metadata i
              ((spread meta (clock w (ticks w)))\<lparr>dm_prompt := nullish p (prompt_of meta)\<rparr>))))"
    by (rule update_Inr)
  let ?e = "(spread meta (clock w (ticks w)))\<lparr>dm_prompt := nullish p (prompt_of meta)\<rparr>"
  from getProperty_assign [OF m] obtain meta' where
    m': "getProperty (assign metadata i ?e) i = Some meta'" by blast
  have lm: "loadMetadata w' = Object (assign metadata i ?e)"
    using f by (simp add: loadMetadata_def existsSync_def)
  have cf: "files w' (getDiagramPath i) = Some (Text c)"
    using f by simp
  have "getById w' i = Inr (Some (materialize i meta' (toWellFormed c)))"
    using lm m' cf by (simp add: getById_def existsSync_def readFileSync_def)
  then show ?thesis
    by (simp add: materialize_def)
qed

lemma getVersion_wellFormed:
  "getVersion w i vid = Inr (Some v) \<Longrightarrow> toWellFormed (v_content v) = v_content v"
  by (auto simp: getVersion_def readFileSync_def withContent_def
      split: json.splits option.splits if_splits contents.splits)





lemma rename_steps:
  assumes "rename w i x = Inr (d, w')"
  obtains metadata meta now w1 content where
    "loadMetadata w = Object metadata" "getProperty metadata i = Some meta"
    "Date_now w = (now, w1)"
    "saveMetadata w1 (assign metadata i ((spread meta now)\<lparr>dm_name := Some x\<rparr>)) = Inr w'"
    "readFileSync w' (getDiagramPath i) = Inr content"
    "d = \<lparr>d_id = i, d_name = Some x, d_content = content, d_prompt = prompt_of meta,
          d_createdAt = createdAt_of meta, d_updatedAt = Some now\<rparr>"
  using assms
  by (auto simp: rename_def split: option.splits prod.splits sum.splits json.splits)

lemma collectDiagrams_length:
  "collectDiagrams w es = Inr ds \<Longrightarrow>
   length ds = length (filter (\<lambda>(i, m). existsSync w (getDiagramPath i)) es)"
  by (induction es arbitrary: ds) (auto split: sum.splits if_splits)

lemma collectDiagrams_member:
  "collectDiagrams w es = Inr ds \<Longrightarrow> (i, m) \<in> set es \<Longrightarrow> existsSync w (getDiagramPath i) \<Longrightarrow>
   \<exists>c. readFileSync w (getDiagramPath i) = Inr c \<and> materialize i (Entry m) c \<in> set ds"
  by (induction es arbitrary: ds) (auto split: sum.splits if_splits)

lemma collectDiagrams_updatedAt:
  "collectDiagrams w es = Inr ds \<Longrightarrow> \<forall>d \<in> set ds. d_updatedAt d \<noteq> None"
  by (induction es arbitrary: ds) (auto simp: materialize_def split: sum.splits if_splits)

lemma collectDiagrams_total:
  "\<forall>(i, m) \<in> set es. existsSync w (getDiagramPath i) \<longrightarrow> (\<exists>c. readFileSync w (getDiagramPath i) = Inr c)
   \<Longrightarrow> \<exists>ds. collectDiagrams w es = Inr ds"
  by (induction es) (auto split: sum.splits)




lemma dropWhile_all: "list_all P xs \<Longrightarrow> dropWhile P (xs @ ys) = dropWhile P ys"
  by (induction xs) auto

lemma trim_wrapped:
  assumes "list_all isWhiteSpace ws1" and "list_all isWhiteSpace ws2"
      and "\<not> isWhiteSpace a" and "\<not> isWhiteSpace b"
  shows "trim (ws1 @ a # mid @ b # ws2) = a # mid @ [b]"
proof -
  have "dropWhile isWhiteSpace (ws1 @ a # mid @ b # ws2) = a # mid @ b # ws2"
    using assms(1,3) by (simp add: dropWhile_all)
  moreover have "rev (a # mid @ b # ws2) = rev ws2 @ b # rev mid @ [a]"
    by simp
  moreover have "dropWhile isWhiteSpace (rev ws2 @ b # rev mid @ [a]) = b # rev mid @ [a]"
    using assms(2,4) by (simp add: dropWhile_all list_all_iff)
  ultimately show ?thesis
    by (simp add: trim_def)
qed

lemma trim_all_white: "list_all isWhiteSpace s \<Longrightarrow> trim s = []"
  by (auto simp: trim_def list_all_iff dest: set_dropWhileD)

lemma backtick_not_white: "\<not> isWhiteSpace CHR ''`''"
  by (simp add: isWhiteSpace_def)

lemma trim_fenced:
  assumes "list_all isWhiteSpace ws1" and "list_all isWhiteSpace ws2"
  shows "trim (ws1 @ ''```'' @ inner @ ''```'' @ ws2) = ''```'' @ inner @ ''```''"
  using trim_wrapped [OF assms backtick_not_white backtick_not_white, of "''``'' @ inner @ ''``''"]
  by simp

lemma stripFences_mermaid:
  assumes "list_all isWhiteSpace ws1" and "list_all isWhiteSpace ws2"
  shows "stripFences (ws1 @ ''```mermaid'' @ body @ ''```'' @ ws2) = trim body"
proof -
  have "trim (ws1 @ ''```mermaid'' @ body @ ''```'' @ ws2) = ''```mermaid'' @ body @ ''```''"
    using trim_fenced [OF assms, of "''mermaid'' @ body"] by simp
  then show ?thesis
    by (simp add: stripFences_def startsWith_def endsWith_def slice_from_def slice_to_end_minus_def)
qed

lemma not_mermaid:
  assumes "\<not> startsWith body ''mermaid''"
  shows "\<not> startsWith (''```'' @ body @ ''```'') ''```mermaid''"
proof
  assume "startsWith (''```'' @ body @ ''```'') ''```mermaid''"
  then have eq: "take 7 (body @ ''```'') = ''mermaid''"
    by (simp add: startsWith_def eval_nat_numeral)
  show False
  proof (cases "7 \<le> length body")
    case True
    with eq have "take 7 body = ''mermaid''" by simp
    moreover have "length ''mermaid'' = 7" by simp
    ultimately have "startsWith body ''mermaid''"
      unfolding startsWith_def by (simp only:)
    with assms show False by simp
  next
    case False
    have "take 7 (body @ ''```'') = take 7 body @ take (7 - length body) ''```''"
      by (rule take_append)
    moreover obtain k where k: "7 - length body = Suc k"
      using False by (cases "7 - length body") auto
    then have "CHR ''`'' \<in> set (take (7 - length body) ''```'')"
      by simp
    ultimately have "CHR ''`'' \<in> set (take 7 (body @ ''```''))"
      by simp
    with eq show False by simp
  qed
qed

lemma stripFences_plain:
  assumes "list_all isWhiteSpace ws1" and "list_all isWhiteSpace ws2"
      and "\<not> startsWith body ''mermaid''"
  shows "stripFences (ws1 @ ''```'' @ body @ ''```'' @ ws2) = trim body"
proof -
  have t: "trim (ws1 @ ''```'' @ body @ ''```'' @ ws2) = ''```'' @ body @ ''```''"
    by (rule trim_fenced [OF assms(1,2)])
  have n: "\<not> startsWith (''```'' @ body @ ''```'') ''```mermaid''"
    by (rule not_mermaid [OF assms(3)])
  have s: "startsWith (''```'' @ body @ ''```'') ''```''"
    by (simp add: startsWith_def)
  have e: "endsWith (body @ ''```'') ''```''"
    by (simp add: endsWith_def)
  show ?thesis
    unfolding stripFences_def Let_def t
    using n s e by (simp add: slice_from_def slice_to_end_minus_def)
qed

lemma trim_fenced_nonempty:
  assumes "list_all isWhiteSpace ws1" and "list_all isWhiteSpace ws2"
  shows "ws1 @ ''```'' @ inner @ ''```'' @ ws2 \<noteq> []
       \<and> length (trim (ws1 @ ''```'' @ inner @ ''```'' @ ws2)) \<noteq> 0"
  using trim_fenced [OF assms, of inner] by simp

lemmas store_eval =
  create_def update_def delete_def rename_def restoreVersion_def createVersion_def
  generateId_def Date_now_def Math_random_suffix_def showInt_def showNat.simps
  writeFileSync_def unlinkSync_def readFileSync_def existsSync_def unlinkIfExists_def
  loadMetadata_def saveMetadata_def loadVersionsMetadata_def saveVersionsMetadata_def
  getById_def listVersions_def getVersion_def list_diagrams_def withContent_def materialize_def
  getProperty_def assign_def objectPrototypeFunctions_def
  nullish_def Let_def path_defs

lemma create_flow:
  "create emptyStore (str ''Flow'') (str ''graph TD'') None = Inr (flowDoc, flowStore)"
  by (simp add: store_eval emptyStore_def flowDoc_def flowStore_def)

lemma update_flow:
  "update flowStore ''1000-r0'' (str ''graph LR'') (Some (str ''make it LR''))
     = Inr (flowDoc2, flowStore2)"
  by (simp add: store_eval flowStore_def flowDoc2_def flowStore2_def)

lemma listVersions_flow: "listVersions flowStore ''1000-r0'' = Inr [flowVersion1]"
  by (simp add: store_eval flowStore_def flowVersion1_def)

lemma listVersions_flow2: "listVersions flowStore2 ''1000-r0'' = Inr [flowVersion2, flowVersion1]"
  by (simp add: store_eval flowStore2_def flowVersion1_def flowVersion2_def)

lemma meta_flow2:
  "loadMetadata flowStore2 = Object [(''1000-r0'',
     \<lparr>dm_id = Some ''1000-r0'', dm_name = Some (str ''Flow''),
      dm_prompt = Some (str ''make it LR''), dm_createdAt = Some 1001, dm_updatedAt = 1004\<rparr>)]"
  by (simp add: store_eval flowStore2_def)

lemma update_flow2:
  "update flowStore2 ''1000-r0'' (str ''graph BT'') None = Inr (flowDoc3, flowStore3)"
  by (simp add: store_eval flowStore2_def flowDoc3_def flowStore3_def)

lemma restore_flow2:
  "restoreVersion flowStore2 ''1000-r0'' ''1002-r1'' = Inr (restoredDoc, restoredStore)"
  by (simp add: store_eval flowStore2_def restoredDoc_def restoredStore_def)

lemma getVersion_flow2:
  "getVersion flowStore2 ''1000-r0'' ''1002-r1'' = Inr (Some flowVersion1)"
  by (simp add: store_eval flowStore2_def flowVersion1_def)

lemma listVersions_restored:
  "listVersions restoredStore ''1000-r0'' = Inr [restoredVersion, flowVersion2, flowVersion1]"
  by (simp add: store_eval restoredStore_def restoredVersion_def flowVersion1_def flowVersion2_def)


lemma list_shelf: "list_diagrams shelf = Inr shelfListing"
  by (simp add: store_eval shelf_def shelfListing_def)

lemma rename_shelf:
  "rename shelf ''20-b'' (str ''timeline'') = Inr (relabelledDoc, relabelledShelf)"
  by (simp add: store_eval shelf_def relabelledDoc_def relabelledShelf_def fun_eq_iff)

lemma meta_shelf:
  "loadMetadata shelf = Object
     [(''10-a'', \<lparr>dm_id = Some ''10-a'', dm_name = Some (str ''first''), dm_prompt = None,
                 dm_createdAt = Some 10, dm_updatedAt = 11\<rparr>),
      (''20-b'', \<lparr>dm_id = Some ''20-b'', dm_name = Some (str ''second''), dm_prompt = None,
                 dm_createdAt = Some 20, dm_updatedAt = 33\<rparr>),
      (''25-x'', \<lparr>dm_id = Some ''25-x'', dm_name = Some (str ''orphan''), dm_prompt = None,
                 dm_createdAt = Some 25, dm_updatedAt = 44\<rparr>),
      (''30-c'', \<lparr>dm_id = Some ''30-c'', dm_name = Some (str ''third''), dm_prompt = None,
                 dm_createdAt = Some 30, dm_updatedAt = 22\<rparr>)]"
  by (simp add: store_eval shelf_def)

text \<open>The three stores arise from the service's own operations on an empty store.\<close>

lemma sameMsStore_reached:
  "create sameMsEmpty (str ''A'') (str ''graph TD'') None = Inr (firstDoc, sameMsStore)"
  by (simp add: store_eval sameMsEmpty_def firstDoc_def sameMsStore_def)

lemma repeatStore_reached:
  "create (sameMsEmpty\<lparr>random := (\<lambda>n. if n = 2 then ''r1'' else ''r'' @ showNat n)\<rparr>)
      (str ''A'') (str ''graph TD'') None = Inr (firstDoc, repeatStore)"
  by (simp add: store_eval sameMsEmpty_def firstDoc_def repeatStore_def)

lemma restoreRepeatStore_reached:
  "\<exists>w1 d2. create (sameMsEmpty\<lparr>random := (\<lambda>n. if n = 3 then ''r2'' else ''r'' @ showNat n)\<rparr>)
              (str ''A'') (str ''graph TD'') None = Inr (firstDoc, w1)
          \<and> update w1 ''1000-r0'' (str ''graph LR'') None = Inr (d2, restoreRepeatStore)"
  by (simp add: store_eval sameMsEmpty_def firstDoc_def restoreRepeatStore_def)

lemma noteText_wellFormed [simp]: "toWellFormed noteText = noteText"
  by (simp add: noteText_def str_def isHighSurrogate_def isLowSurrogate_def)

lemma halfPair_read [simp]: "toWellFormed halfPair = halfPairRead"
  by (simp add: halfPair_def halfPairRead_def str_def isHighSurrogate_def isLowSurrogate_def)

lemma halfPair_changed: "halfPairRead \<noteq> halfPair"
  by (simp add: halfPair_def halfPairRead_def)



lemma update_halfPair:
  "update flowStore ''1000-r0'' halfPair None = Inr (halfPairDoc2, halfPairStore2)"
  by (simp add: store_eval flowStore_def halfPairDoc2_def halfPairStore2_def)



lemma set_key_example: "setOpenAIApiKey examplePlatform legacySettings ''sk-1'' = Inr securedSettings"
  by code_simp

lemma settings_set_Inr:
  "settings_set svc key v = Inr svc' \<Longrightarrow>
   settings svc' = AList.update key v (settings svc) \<and> settingsFile svc' = Some (settings svc')"
  by (auto simp: settings_set_def saveSettings_def Let_def split: if_splits)

lemma settings_delete_Inr:
  "settings_delete svc key = Inr svc' \<Longrightarrow>
   settings svc' = AList.delete key (settings svc) \<and> settingsFile svc' = Some (settings svc')"
  by (auto simp: settings_delete_def saveSettings_def Let_def split: if_splits)

section \<open>Properties\<close>




text \<open>
  Claim C2, as stated, promises the new content unchanged and every prior version unchanged
  after a successful \<open>update\<close>. Neither holds for every input.
  \<^item> The content file is written with encoding \<^verbatim>\<open>utf-8\<close>: after an update of \<open>flowStore\<close> with
    the content \<open>halfPair\<close>, \<open>getById\<close> gives the content with U+FFFD in the place of the
    unpaired surrogate.
  \<^item> \<open>generateId\<close> does not check that the identifier is unused. In \<open>repeatStore\<close> the
    identifier generated for the new version is the identifier of the version the document
    already has: the content file of that version is overwritten, so \<open>getVersion\<close> of it gives
    the new content, and \<open>listVersions\<close> shows the new content twice.
\<close>

theorem update_counterexample:
  "update flowStore ''1000-r0'' halfPair None = Inr (halfPairDoc2, halfPairStore2)
   \<and> getById halfPairStore2 ''1000-r0'' = Inr (Some (halfPairDoc2\<lparr>d_content := halfPairRead\<rparr>))
   \<and> halfPairRead \<noteq> halfPair
   \<and> getVersion repeatStore ''1000-r0'' ''1000-r1'' = Inr (Some firstVersion)
   \<and> listVersions repeatStore ''1000-r0'' = Inr [firstVersion]
   \<and> update repeatStore ''1000-r0'' (str ''graph LR'') None = Inr (repeatDoc, repeatStore2)
   \<and> getVersion repeatStore2 ''1000-r0'' ''1000-r1''
       = Inr (Some (firstVersion\<lparr>v_content := str ''graph LR''\<rparr>))
   \<and> listVersions repeatStore2 ''1000-r0''
       = Inr [firstVersion\<lparr>v_content := str ''graph LR''\<rparr>,
              firstVersion\<lparr>v_content := str ''graph LR''\<rparr>]"
proof -
  have "getById halfPairStore2 ''1000-r0'' = Inr (Some (halfPairDoc2\<lparr>d_content := halfPairRead\<rparr>))"
    by (simp add: store_eval halfPairStore2_def halfPairDoc2_def)
  moreover have "getVersion repeatStore ''1000-r0'' ''1000-r1'' = Inr (Some firstVersion)
   \<and> listVersions repeatStore ''1000-r0'' = Inr [firstVersion]
   \<and> update repeatStore ''1000-r0'' (str ''graph LR'') None = Inr (repeatDoc, repeatStore2)
   \<and> getVersion repeatStore2 ''1000-r0'' ''1000-r1''
       = Inr (Some (firstVersion\<lparr>v_content := str ''graph LR''\<rparr>))
   \<and> listVersions repeatStore2 ''1000-r0''
       = Inr [firstVersion\<lparr>v_content := str ''graph LR''\<rparr>,
              firstVersion\<lparr>v_content := str ''graph LR''\<rparr>]"
    by (simp add: store_eval repeatStore_def repeatDoc_def repeatStore2_def firstVersion_def)
  ultimately show ?thesis
    using update_halfPair halfPair_changed by simp
qed

text \<open>
  Claim C2, amended. After \<open>update\<close> succeeds on an existing document (one with an entry of
  its own in the metadata index), \<open>getById\<close> gives the document that \<open>update\<close> returned, with
  the new content as it is read back from the file: unchanged when it is well formed, and
  with U+FFFD in the place of every unpaired surrogate otherwise. The name and the creation
  time are those of the entry, and of the document \<open>getById\<close> gave before; the update time
  is the clock reading at the start of the call; the prompt is the given prompt if one was
  supplied, the previous prompt otherwise. The version index has one entry more, under the
  identifier \<open>generateId\<close> returned, and \<open>getVersion\<close> of every other identifier gives what it
  gave before. When that identifier is not the identifier of a version the document already
  has, \<open>listVersions\<close> holds the versions it held before and one more, whose content is the
  new content as read back, and every version listed before is returned by \<open>getVersion\<close> as
  before.
\<close>

theorem update_then_read:
  assumes ok: "update w i c2 p = Inr (d, w')"
      and lm: "loadMetadata w = Object metadata"
      and own: "map_of metadata i = Some entry"
  shows "getById w' i = Inr (Some (d\<lparr>d_content := toWellFormed c2\<rparr>))
       \<and> (isWellFormed c2 \<longrightarrow> getById w' i = Inr (Some d))
       \<and> d_content d = c2 \<and> d_name d = dm_name entry \<and> d_createdAt d = dm_createdAt entry
       \<and> d_updatedAt d = Some (fst (Date_now w))
       \<and> d_prompt d = (case p of None \<Rightarrow> dm_prompt entry | Some q \<Rightarrow> Some q)
       \<and> (\<forall>before. getById w i = Inr (Some before) \<longrightarrow>
             d_name d = d_name before \<and> d_createdAt d = d_createdAt before
             \<and> d_prompt d = (case p of None \<Rightarrow> d_prompt before | Some q \<Rightarrow> Some q))
       \<and> (\<exists>vs nv. loadVersionsMetadata w i = Array vs
             \<and> loadVersionsMetadata w' i = Array (vs @ [nv])
             \<and> vm_id nv = fst (generateId (snd (Date_now w)))
             \<and> (\<forall>vid. vid \<noteq> vm_id nv \<longrightarrow> getVersion w' i vid = getVersion w i vid)
             \<and> (vm_id nv \<notin> vm_id ` set vs \<longrightarrow>
                  (\<forall>olds. listVersions w i = Inr olds \<longrightarrow>
                     (\<exists>v news. listVersions w' i = Inr news
                         \<and> mset news = add_mset v (mset olds)
                         \<and> v_id v = vm_id nv \<and> v_content v = toWellFormed c2 \<and> v_prompt v = p)
                     \<and> (\<forall>v0 \<in> set olds. getVersion w' i (v_id v0) = getVersion w i (v_id v0)))))"
proof -
  let ?vid = "fst (generateId (snd (Date_now w)))"
  let ?nv = "\<lparr>vm_id = ?vid, vm_diagramId = i, vm_prompt = p,
                vm_createdAt = clock w (Suc (Suc (ticks w)))\<rparr>"
  note g = update_read_back(1) [OF ok lm own] and d = update_read_back(2) [OF ok lm own]
  have g': "getById w' i = Inr (Some d)" if "isWellFormed c2"
    using g that d by (simp add: isWellFormed_def)
  have fields: "d_content d = c2 \<and> d_name d = dm_name entry \<and> d_createdAt d = dm_createdAt entry
       \<and> d_updatedAt d = Some (fst (Date_now w))
       \<and> d_prompt d = (case p of None \<Rightarrow> dm_prompt entry | Some q \<Rightarrow> Some q)"
    using d by (simp add: Date_now_def nullish_def split: option.splits)
  have prior: "d_name d = d_name before \<and> d_createdAt d = d_createdAt before
        \<and> d_prompt d = (case p of None \<Rightarrow> d_prompt before | Some q \<Rightarrow> Some q)"
    if "getById w i = Inr (Some before)" for before
  proof -
    from that lm own obtain c where "before = materialize i (Entry entry) c"
      by (auto simp: getById_def getProperty_def split: if_splits sum.splits)
    then show ?thesis
      using fields by (auto simp: materialize_def split: option.splits)
  qed
  from update_versions [OF ok] obtain vs where
    lv: "loadVersionsMetadata w i = Array vs"
    and lv': "loadVersionsMetadata w' i = Array (vs @ [?nv])"
    and gv0: "\<forall>vid. vid \<noteq> ?vid \<longrightarrow> getVersion w' i vid = getVersion w i vid"
    and grow0: "?vid \<notin> vm_id ` set vs \<longrightarrow> (\<forall>olds. listVersions w i = Inr olds \<longrightarrow>
        (\<exists>news. listVersions w' i = Inr news
          \<and> mset news = add_mset (withContent ?nv (toWellFormed c2)) (mset olds)))"
    by blast
  from gv0 have gv: "getVersion w' i vid = getVersion w i vid" if "vid \<noteq> ?vid" for vid
    using that by blast
  from grow0 have grow: "\<exists>news. listVersions w' i = Inr news
          \<and> mset news = add_mset (withContent ?nv (toWellFormed c2)) (mset olds)"
    if "?vid \<notin> vm_id ` set vs" "listVersions w i = Inr olds" for olds
    using that by blast
  have listed: "v_id v0 \<in> vm_id ` set vs" if "listVersions w i = Inr olds" "v0 \<in> set olds"
    for olds v0
  proof -
    from that(1) lv obtain xs where xs: "collectVersions w i vs = Inr xs"
      and olds: "olds = sort_key (\<lambda>v. - v_createdAt v) xs"
      by (auto simp: listVersions_def split: sum.splits)
    from that(2) olds have "v0 \<in> set xs" by simp
    from collectVersions_member [OF xs this] show ?thesis .
  qed
  have versions: "(\<exists>v news. listVersions w' i = Inr news
                         \<and> mset news = add_mset v (mset olds)
                         \<and> v_id v = vm_id ?nv \<and> v_content v = toWellFormed c2 \<and> v_prompt v = p)
                     \<and> (\<forall>v0 \<in> set olds. getVersion w' i (v_id v0) = getVersion w i (v_id v0))"
    if fresh: "vm_id ?nv \<notin> vm_id ` set vs" and before: "listVersions w i = Inr olds" for olds
  proof
    from fresh have "?vid \<notin> vm_id ` set vs" by simp
    from grow [OF this before] obtain news where
      "listVersions w' i = Inr news"
      "mset news = add_mset (withContent ?nv (toWellFormed c2)) (mset olds)"
      by blast
    moreover have "v_id (withContent ?nv (toWellFormed c2)) = vm_id ?nv
        \<and> v_content (withContent ?nv (toWellFormed c2)) = toWellFormed c2
        \<and> v_prompt (withContent ?nv (toWellFormed c2)) = p"
      by (simp add: withContent_def)
    ultimately show "\<exists>v news. listVersions w' i = Inr news
        \<and> mset news = add_mset v (mset olds)
        \<and> v_id v = vm_id ?nv \<and> v_content v = toWellFormed c2 \<and> v_prompt v = p"
      by blast
    show "\<forall>v0 \<in> set olds. getVersion w' i (v_id v0) = getVersion w i (v_id v0)"
    proof
      fix v0
      assume "v0 \<in> set olds"
      from listed [OF before this] fresh have "v_id v0 \<noteq> ?vid" by auto
      then show "getVersion w' i (v_id v0) = getVersion w i (v_id v0)" by (rule gv)
    qed
  qed
  have index: "\<exists>vs nv. loadVersionsMetadata w i = Array vs
             \<and> loadVersionsMetadata w' i = Array (vs @ [nv])
             \<and> vm_id nv = ?vid
             \<and> (\<forall>vid. vid \<noteq> vm_id nv \<longrightarrow> getVersion w' i vid = getVersion w i vid)
             \<and> (vm_id nv \<notin> vm_id ` set vs \<longrightarrow>
                  (\<forall>olds. listVersions w i = Inr olds \<longrightarrow>
                     (\<exists>v news. listVersions w' i = Inr news
                         \<and> mset news = add_mset v (mset olds)
                         \<and> v_id v = vm_id nv \<and> v_content v = toWellFormed c2 \<and> v_prompt v = p)
                     \<and> (\<forall>v0 \<in> set olds. getVersion w' i (v_id v0) = getVersion w i (v_id v0))))"
  proof -
    have others: "\<forall>vid. vid \<noteq> vm_id ?nv \<longrightarrow> getVersion w' i vid = getVersion w i vid"
      using gv by simp
    have fresh: "vm_id ?nv \<notin> vm_id ` set vs \<longrightarrow>
                  (\<forall>olds. listVersions w i = Inr olds \<longrightarrow>
                     (\<exists>v news. listVersions w' i = Inr news
                         \<and> mset news = add_mset v (mset olds)
                         \<and> v_id v = vm_id ?nv \<and> v_content v = toWellFormed c2 \<and> v_prompt v = p)
                     \<and> (\<forall>v0 \<in> set olds. getVersion w' i (v_id v0) = getVersion w i (v_id v0)))"
      using versions by blast
    have "loadVersionsMetadata w i = Array vs
             \<and> loadVersionsMetadata w' i = Array (vs @ [?nv])
             \<and> vm_id ?nv = ?vid
             \<and> (\<forall>vid. vid \<noteq> vm_id ?nv \<longrightarrow> getVersion w' i vid = getVersion w i vid)
             \<and> (vm_id ?nv \<notin> vm_id ` set vs \<longrightarrow>
                  (\<forall>olds. listVersions w i = Inr olds \<longrightarrow>
                     (\<exists>v news. listVersions w' i = Inr news
                         \<and> mset news = add_mset v (mset olds)
                         \<and> v_id v = vm_id ?nv \<and> v_content v = toWellFormed c2 \<and> v_prompt v = p)
                     \<and> (\<forall>v0 \<in> set olds. getVersion w' i (v_id v0) = getVersion w i (v_id v0))))"
      using lv lv' others fresh by simp
    then show ?thesis by (intro exI)
  qed
  from g g' fields prior index show ?thesis
    by blast
qed

theorem update_then_read_witness:
  "update flowStore ''1000-r0'' (str ''graph LR'') (Some (str ''make it LR''))
     = Inr (flowDoc2, flowStore2)
   \<and> loadMetadata flowStore = Object [(''1000-r0'',
        \<lparr>dm_id = Some ''1000-r0'', dm_name = Some (str ''Flow''), dm_prompt = None,
         dm_createdAt = Some 1001, dm_updatedAt = 1001\<rparr>)]
   \<and> isWellFormed (str ''graph LR'')
   \<and> getById flowStore ''1000-r0'' = Inr (Some flowDoc)
   \<and> getById flowStore2 ''1000-r0'' = Inr (Some flowDoc2)
   \<and> d_name flowDoc2 = d_name flowDoc \<and> d_createdAt flowDoc2 = d_createdAt flowDoc
   \<and> d_updatedAt flowDoc2 = Some 1004 \<and> d_prompt flowDoc2 = Some (str ''make it LR'')
   \<and> loadVersionsMetadata flowStore ''1000-r0'' = Array
        [\<lparr>vm_id = ''1002-r1'', vm_diagramId = ''1000-r0'', vm_prompt = None, vm_createdAt = 1003\<rparr>]
   \<and> fst (generateId (snd (Date_now flowStore))) = ''1005-r2''
   \<and> listVersions flowStore ''1000-r0'' = Inr [flowVersion1]
   \<and> listVersions flowStore2 ''1000-r0'' = Inr [flowVersion2, flowVersion1]
   \<and> getVersion flowStore2 ''1000-r0'' ''1002-r1'' = getVersion flowStore ''1000-r0'' ''1002-r1''"
proof -
  have lm: "loadMetadata flowStore = Object [(''1000-r0'',
        \<lparr>dm_id = Some ''1000-r0'', dm_name = Some (str ''Flow''), dm_prompt = None,
         dm_createdAt = Some 1001, dm_updatedAt = 1001\<rparr>)]"
    by (simp add: store_eval flowStore_def)
  have own: "map_of [(''1000-r0'',
        \<lparr>dm_id = Some ''1000-r0'', dm_name = Some (str ''Flow''), dm_prompt = None,
         dm_createdAt = Some 1001, dm_updatedAt = 1001\<rparr>)] ''1000-r0''
      = Some \<lparr>dm_id = Some ''1000-r0'', dm_name = Some (str ''Flow''), dm_prompt = None,
         dm_createdAt = Some 1001, dm_updatedAt = 1001\<rparr>"
    by simp
  have wf: "isWellFormed (str ''graph LR'')"
    by (simp add: isWellFormed_def)
  have before: "getById flowStore ''1000-r0'' = Inr (Some flowDoc)"
    by (simp add: store_eval flowStore_def flowDoc_def)
  have idx: "loadVersionsMetadata flowStore ''1000-r0'' = Array
        [\<lparr>vm_id = ''1002-r1'', vm_diagramId = ''1000-r0'', vm_prompt = None, vm_createdAt = 1003\<rparr>]"
    by (simp add: store_eval flowStore_def)
  have newid: "fst (generateId (snd (Date_now flowStore))) = ''1005-r2''"
    by (simp add: store_eval flowStore_def)
  have t: "fst (Date_now flowStore) = 1004"
    by (simp add: Date_now_def flowStore_def)
  note inst = update_then_read [OF update_flow lm own]
  from inst wf have after: "getById flowStore2 ''1000-r0'' = Inr (Some flowDoc2)"
    by blast
  from inst before have kept: "d_name flowDoc2 = d_name flowDoc
      \<and> d_createdAt flowDoc2 = d_createdAt flowDoc"
    by blast
  from inst t have fields: "d_updatedAt flowDoc2 = Some 1004
      \<and> d_prompt flowDoc2 = Some (str ''make it LR'')"
    by simp
  from inst idx newid
  have "getVersion flowStore2 ''1000-r0'' ''1002-r1'' = getVersion flowStore ''1000-r0'' ''1002-r1''"
    by auto
  with update_flow lm wf before after kept fields idx newid listVersions_flow listVersions_flow2
  show ?thesis by simp
qed

text \<open>
  Claim C3, as stated, promises that no version is modified by a restore. In
  \<open>restoreRepeatStore\<close> the document has two versions; restoring the first appends a version
  whose generated identifier is that of the second, so the content file of the second version
  is overwritten with the restored content.
\<close>

theorem restore_collision_counterexample:
  "getVersion restoreRepeatStore ''1000-r0'' ''1000-r1'' = Inr (Some firstVersion)
   \<and> getVersion restoreRepeatStore ''1000-r0'' ''1000-r2'' = Inr (Some secondVersion)
   \<and> restoreVersion restoreRepeatStore ''1000-r0'' ''1000-r1''
       = Inr (restoreRepeatDoc, restoreRepeatStore2)
   \<and> getVersion restoreRepeatStore2 ''1000-r0'' ''1000-r2''
       = Inr (Some (secondVersion\<lparr>v_content := str ''graph TD''\<rparr>))"
  by (simp add: store_eval restoreRepeatStore_def restoreRepeatDoc_def restoreRepeatStore2_def
      firstVersion_def secondVersion_def)

text \<open>
  Claim C3, amended. \<open>restoreVersion\<close> is the spec's "fetch the version, then update with its
  content and prompt". When the version is absent it fails with "Version not found". When
  it succeeds it is that \<open>update\<close>: \<open>getById\<close> then gives a document with the restored content
  (the returned document, when the document has an entry of its own in the metadata index),
  the version index has exactly one entry more, under the identifier \<open>generateId\<close> returned,
  none of its entries is removed, and \<open>getVersion\<close> of every other identifier gives what it
  gave before. When that identifier is not the identifier of a version the document already
  has, \<open>listVersions\<close> holds the versions it held before and one more, carrying the restored
  content and prompt, and every version listed before, those created after the restored
  one included, is returned by \<open>getVersion\<close> as before.
\<close>

theorem restoreVersion_is_update:
  "restoreVersion w i vid = restoreVersion_spec w i vid
   \<and> (getVersion w i vid = Inr None \<longrightarrow>
        restoreVersion w i vid = Inl (VersionNotFound vid, w)
        \<and> message (VersionNotFound vid) = ''Version not found: '' @ vid)
   \<and> (\<forall>vOld d w'.
        getVersion w i vid = Inr (Some vOld) \<and> restoreVersion w i vid = Inr (d, w') \<longrightarrow>
          update w i (v_content vOld) (v_prompt vOld) = Inr (d, w')
          \<and> d_content d = v_content vOld
          \<and> (\<exists>d'. getById w' i = Inr (Some d') \<and> d_content d' = v_content vOld)
          \<and> (\<forall>metadata entry. loadMetadata w = Object metadata \<and> map_of metadata i = Some entry \<longrightarrow>
                getById w' i = Inr (Some d))
          \<and> (\<exists>vs nv. loadVersionsMetadata w i = Array vs
                \<and> loadVersionsMetadata w' i = Array (vs @ [nv])
                \<and> vm_id nv = fst (generateId (snd (Date_now w)))
                \<and> (\<forall>v. v \<noteq> vm_id nv \<longrightarrow> getVersion w' i v = getVersion w i v)
                \<and> (vm_id nv \<notin> vm_id ` set vs \<longrightarrow>
                     (\<forall>olds. listVersions w i = Inr olds \<longrightarrow>
                        (\<exists>v news. listVersions w' i = Inr news
                            \<and> mset news = add_mset v (mset olds)
                            \<and> v_id v = vm_id nv \<and> v_content v = v_content vOld
                            \<and> v_prompt v = v_prompt vOld)
                        \<and> (\<forall>v0 \<in> set olds.
                              getVersion w' i (v_id v0) = getVersion w i (v_id v0))))))"
proof (intro conjI allI impI)
  show "restoreVersion w i vid = restoreVersion_spec w i vid"
    by (simp add: restoreVersion_def restoreVersion_spec_def split: sum.splits option.splits)
next
  assume "getVersion w i vid = Inr None"
  then show "restoreVersion w i vid = Inl (VersionNotFound vid, w)"
    by (simp add: restoreVersion_def)
next
  show "message (VersionNotFound vid) = ''Version not found: '' @ vid"
    by simp
next
  fix vOld d w'
  assume a: "getVersion w i vid = Inr (Some vOld) \<and> restoreVersion w i vid = Inr (d, w')"
  then have gv: "getVersion w i vid = Inr (Some vOld)"
    and rv: "restoreVersion w i vid = Inr (d, w')" by simp_all
  let ?c = "v_content vOld"
  let ?p = "v_prompt vOld"
  let ?vid = "fst (generateId (snd (Date_now w)))"
  let ?nv = "\<lparr>vm_id = ?vid, vm_diagramId = i, vm_prompt = ?p,
                vm_createdAt = clock w (Suc (Suc (ticks w)))\<rparr>"
  from rv have up: "update w i ?c ?p = Inr (d, w')"
    by (simp add: restoreVersion_def gv)
  have wf: "toWellFormed ?c = ?c"
    using gv by (rule getVersion_wellFormed)
  show "update w i ?c ?p = Inr (d, w')" by (rule up)
  show "d_content d = ?c"
    using up by (rule update_Inr) simp
  show "\<exists>d'. getById w' i = Inr (Some d') \<and> d_content d' = ?c"
    using update_getById [OF up] wf by simp
  show "getById w' i = Inr (Some d)"
    if "loadMetadata w = Object metadata \<and> map_of metadata i = Some entry" for metadata entry
  proof -
    from that have lm: "loadMetadata w = Object metadata" and own: "map_of metadata i = Some entry"
      by simp_all
    from update_read_back(1) [OF up lm own] update_read_back(2) [OF up lm own] wf
    show ?thesis by simp
  qed
  from update_versions [OF up] obtain vs where
    lv: "loadVersionsMetadata w i = Array vs"
    and lv': "loadVersionsMetadata w' i = Array (vs @ [?nv])"
    and gv0: "\<forall>v. v \<noteq> ?vid \<longrightarrow> getVersion w' i v = getVersion w i v"
    and grow0: "?vid \<notin> vm_id ` set vs \<longrightarrow> (\<forall>olds. listVersions w i = Inr olds \<longrightarrow>
        (\<exists>news. listVersions w' i = Inr news
          \<and> mset news = add_mset (withContent ?nv (toWellFormed ?c)) (mset olds)))"
    by blast
  have listed: "v_id v0 \<in> vm_id ` set vs" if "listVersions w i = Inr olds" "v0 \<in> set olds"
    for olds v0
  proof -
    from that(1) lv obtain xs where xs: "collectVersions w i vs = Inr xs"
      and olds: "olds = sort_key (\<lambda>v. - v_createdAt v) xs"
      by (auto simp: listVersions_def split: sum.splits)
    from that(2) olds have "v0 \<in> set xs" by simp
    from collectVersions_member [OF xs this] show ?thesis .
  qed
  have new: "v_id (withContent ?nv ?c) = vm_id ?nv \<and> v_content (withContent ?nv ?c) = ?c
      \<and> v_prompt (withContent ?nv ?c) = ?p"
    by (simp add: withContent_def)
  have fresh: "vm_id ?nv \<notin> vm_id ` set vs \<longrightarrow>
      (\<forall>olds. listVersions w i = Inr olds \<longrightarrow>
         (\<exists>v news. listVersions w' i = Inr news \<and> mset news = add_mset v (mset olds)
             \<and> v_id v = vm_id ?nv \<and> v_content v = ?c \<and> v_prompt v = ?p)
         \<and> (\<forall>v0 \<in> set olds. getVersion w' i (v_id v0) = getVersion w i (v_id v0)))"
  proof (intro impI allI conjI ballI)
    fix olds
    assume f: "vm_id ?nv \<notin> vm_id ` set vs" and before: "listVersions w i = Inr olds"
    from grow0 f before wf obtain news where
      "listVersions w' i = Inr news" "mset news = add_mset (withContent ?nv ?c) (mset olds)"
      by auto
    with new show "\<exists>v news. listVersions w' i = Inr news \<and> mset news = add_mset v (mset olds)
             \<and> v_id v = vm_id ?nv \<and> v_content v = ?c \<and> v_prompt v = ?p"
      by blast
    fix v0
    assume "v0 \<in> set olds"
    from listed [OF before this] f have "v_id v0 \<noteq> ?vid" by auto
    with gv0 show "getVersion w' i (v_id v0) = getVersion w i (v_id v0)" by blast
  qed
  have "loadVersionsMetadata w i = Array vs
        \<and> loadVersionsMetadata w' i = Array (vs @ [?nv])
        \<and> vm_id ?nv = ?vid
        \<and> (\<forall>v. v \<noteq> vm_id ?nv \<longrightarrow> getVersion w' i v = getVersion w i v)
        \<and> (vm_id ?nv \<notin> vm_id ` set vs \<longrightarrow>
             (\<forall>olds. listVersions w i = Inr olds \<longrightarrow>
                (\<exists>v news. listVersions w' i = Inr news \<and> mset news = add_mset v (mset olds)
                    \<and> v_id v = vm_id ?nv \<and> v_content v = ?c \<and> v_prompt v = ?p)
                \<and> (\<forall>v0 \<in> set olds. getVersion w' i (v_id v0) = getVersion w i (v_id v0))))"
    using lv lv' gv0 fresh by simp
  then show "\<exists>vs nv. loadVersionsMetadata w i = Array vs
        \<and> loadVersionsMetadata w' i = Array (vs @ [nv])
        \<and> vm_id nv = ?vid
        \<and> (\<forall>v. v \<noteq> vm_id nv \<longrightarrow> getVersion w' i v = getVersion w i v)
        \<and> (vm_id nv \<notin> vm_id ` set vs \<longrightarrow>
             (\<forall>olds. listVersions w i = Inr olds \<longrightarrow>
                (\<exists>v news. listVersions w' i = Inr news \<and> mset news = add_mset v (mset olds)
                    \<and> v_id v = vm_id nv \<and> v_content v = ?c \<and> v_prompt v = ?p)
                \<and> (\<forall>v0 \<in> set olds. getVersion w' i (v_id v0) = getVersion w i (v_id v0))))"
    by (intro exI)
qed

theorem restoreVersion_is_update_witness:
  "getVersion flowStore2 ''1000-r0'' ''1002-r1'' = Inr (Some flowVersion1)
   \<and> restoreVersion flowStore2 ''1000-r0'' ''1002-r1'' = Inr (restoredDoc, restoredStore)
   \<and> update flowStore2 ''1000-r0'' (v_content flowVersion1) (v_prompt flowVersion1)
        = Inr (restoredDoc, restoredStore)
   \<and> getById restoredStore ''1000-r0'' = Inr (Some restoredDoc)
   \<and> d_content restoredDoc = v_content flowVersion1
   \<and> fst (generateId (snd (Date_now flowStore2))) = ''1008-r3''
   \<and> listVersions flowStore2 ''1000-r0'' = Inr [flowVersion2, flowVersion1]
   \<and> listVersions restoredStore ''1000-r0'' = Inr [restoredVersion, flowVersion2, flowVersion1]
   \<and> getVersion restoredStore ''1000-r0'' ''1005-r2'' = getVersion flowStore2 ''1000-r0'' ''1005-r2''
   \<and> getVersion flowStore ''1000-r0'' ''1005-r2'' = Inr None
   \<and> restoreVersion flowStore ''1000-r0'' ''1005-r2'' = Inl (VersionNotFound ''1005-r2'', flowStore)"
proof -
  have absent: "getVersion flowStore ''1000-r0'' ''1005-r2'' = Inr None"
    by (simp add: store_eval flowStore_def)
  have newid: "fst (generateId (snd (Date_now flowStore2))) = ''1008-r3''"
    by (simp add: store_eval flowStore2_def)
  have own: "map_of [(''1000-r0'',
     \<lparr>dm_id = Some ''1000-r0'', dm_name = Some (str ''Flow''),
      dm_prompt = Some (str ''make it LR''), dm_createdAt = Some 1001, dm_updatedAt = 1004\<rparr>)]
      ''1000-r0'' = Some \<lparr>dm_id = Some ''1000-r0'', dm_name = Some (str ''Flow''),
      dm_prompt = Some (str ''make it LR''), dm_createdAt = Some 1001, dm_updatedAt = 1004\<rparr>"
    by simp
  have hyp: "getVersion flowStore2 ''1000-r0'' ''1002-r1'' = Inr (Some flowVersion1)
      \<and> restoreVersion flowStore2 ''1000-r0'' ''1002-r1'' = Inr (restoredDoc, restoredStore)"
    using getVersion_flow2 restore_flow2 by simp
  note inst = restoreVersion_is_update [of flowStore2 "''1000-r0''" "''1002-r1''"]
  from inst hyp
  have run: "update flowStore2 ''1000-r0'' (v_content flowVersion1) (v_prompt flowVersion1)
        = Inr (restoredDoc, restoredStore)
      \<and> d_content restoredDoc = v_content flowVersion1"
    by blast
  from inst hyp meta_flow2 own
  have readback: "getById restoredStore ''1000-r0'' = Inr (Some restoredDoc)"
    by blast
  from inst hyp newid
  have others: "getVersion restoredStore ''1000-r0'' ''1005-r2''
      = getVersion flowStore2 ''1000-r0'' ''1005-r2''"
    by auto
  from restoreVersion_is_update [of flowStore "''1000-r0''" "''1005-r2''"] absent
  have missing: "restoreVersion flowStore ''1000-r0'' ''1005-r2''
      = Inl (VersionNotFound ''1005-r2'', flowStore)"
    by blast
  from hyp run readback others missing absent newid listVersions_flow2 listVersions_restored
  show ?thesis by simp
qed




text \<open>
  Claim C5. Whenever \<open>list\<close> returns, the metadata index is an object of entries and the
  documents are in descending order of their update time; every index entry whose content
  file exists is among them with its content, and the entries whose content file is missing
  contribute nothing. A missing content file never makes \<open>list\<close> fail: with an object as the
  index, it returns whenever every content file that exists can be read.
\<close>

theorem list_sorted_and_skips:
  "(\<forall>ds. list_diagrams w = Inr ds \<longrightarrow>
       sorted_wrt (\<lambda>a b. the (d_updatedAt a) \<ge> the (d_updatedAt b)) ds
       \<and> (\<forall>d \<in> set ds. d_updatedAt d \<noteq> None)
       \<and> (\<exists>metadata. loadMetadata w = Object metadata
            \<and> (\<forall>(i, m) \<in> set metadata. existsSync w (getDiagramPath i) \<longrightarrow>
                  (\<exists>c. readFileSync w (getDiagramPath i) = Inr c
                       \<and> materialize i (Entry m) c \<in> set ds))
            \<and> length ds
                = length (filter (\<lambda>(i, m). existsSync w (getDiagramPath i)) metadata)))
   \<and> (\<forall>metadata. loadMetadata w = Object metadata
        \<and> (\<forall>(i, m) \<in> set metadata. existsSync w (getDiagramPath i) \<longrightarrow>
              (\<exists>c. readFileSync w (getDiagramPath i) = Inr c))
        \<longrightarrow> (\<exists>ds. list_diagrams w = Inr ds))"
proof (intro conjI allI impI)
  fix ds
  assume ok: "list_diagrams w = Inr ds"
  then obtain metadata xs where lm: "loadMetadata w = Object metadata"
    and xs: "collectDiagrams w metadata = Inr xs"
    and ds: "ds = sort_key (\<lambda>d. - the (d_updatedAt d)) xs"
    by (auto simp: list_diagrams_def split: json.splits sum.splits)
  have "sorted (map (\<lambda>d. - the (d_updatedAt d)) ds)"
    using ds by simp
  then show "sorted_wrt (\<lambda>a b. the (d_updatedAt a) \<ge> the (d_updatedAt b)) ds"
    by (simp add: sorted_map)
  show "\<forall>d \<in> set ds. d_updatedAt d \<noteq> None"
    using collectDiagrams_updatedAt [OF xs] ds by simp
  have members: "\<forall>(i, m) \<in> set metadata. existsSync w (getDiagramPath i) \<longrightarrow>
             (\<exists>c. readFileSync w (getDiagramPath i) = Inr c
                  \<and> materialize i (Entry m) c \<in> set ds)"
    using collectDiagrams_member [OF xs] ds by auto
  have len: "length ds = length (filter (\<lambda>(i, m). existsSync w (getDiagramPath i)) metadata)"
    using collectDiagrams_length [OF xs] ds by simp
  from lm members len
  show "\<exists>metadata. loadMetadata w = Object metadata
            \<and> (\<forall>(i, m) \<in> set metadata. existsSync w (getDiagramPath i) \<longrightarrow>
                  (\<exists>c. readFileSync w (getDiagramPath i) = Inr c
                       \<and> materialize i (Entry m) c \<in> set ds))
            \<and> length ds
                = length (filter (\<lambda>(i, m). existsSync w (getDiagramPath i)) metadata)"
    by blast
next
  fix metadata
  assume "loadMetadata w = Object metadata
        \<and> (\<forall>(i, m) \<in> set metadata. existsSync w (getDiagramPath i) \<longrightarrow>
              (\<exists>c. readFileSync w (getDiagramPath i) = Inr c))"
  then have lm: "loadMetadata w = Object metadata"
    and readable: "\<forall>(i, m) \<in> set metadata. existsSync w (getDiagramPath i) \<longrightarrow>
              (\<exists>c. readFileSync w (getDiagramPath i) = Inr c)"
    by simp_all
  from collectDiagrams_total [OF readable] lm show "\<exists>ds. list_diagrams w = Inr ds"
    by (auto simp: list_diagrams_def)
qed

theorem list_sorted_and_skips_witness:
  "list_diagrams shelf = Inr shelfListing
   \<and> map d_updatedAt shelfListing = [Some 33, Some 22, Some 11]
   \<and> sorted_wrt (\<lambda>a b. the (d_updatedAt a) \<ge> the (d_updatedAt b)) shelfListing
   \<and> (\<exists>metadata. loadMetadata shelf = Object metadata
         \<and> map fst metadata = [''10-a'', ''20-b'', ''25-x'', ''30-c'']
         \<and> length shelfListing
             = length (filter (\<lambda>(i, m). existsSync shelf (getDiagramPath i)) metadata))
   \<and> \<not> existsSync shelf (getDiagramPath ''25-x'')
   \<and> length shelfListing = 3"
proof -
  obtain metadata where lm: "loadMetadata shelf = Object metadata"
    and idx: "map fst metadata = [''10-a'', ''20-b'', ''25-x'', ''30-c'']"
    by (simp add: store_eval shelf_def)
  have missing: "\<not> existsSync shelf (getDiagramPath ''25-x'')"
    by (simp add: existsSync_def shelf_def)
  from list_sorted_and_skips [of shelf] list_shelf
  have sorted: "sorted_wrt (\<lambda>a b. the (d_updatedAt a) \<ge> the (d_updatedAt b)) shelfListing"
    and "\<exists>metadata. loadMetadata shelf = Object metadata
            \<and> length shelfListing
                = length (filter (\<lambda>(i, m). existsSync shelf (getDiagramPath i)) metadata)"
    by blast+
  with lm have len: "length shelfListing
      = length (filter (\<lambda>(i, m). existsSync shelf (getDiagramPath i)) metadata)"
    by simp
  from lm idx len
  have "\<exists>metadata. loadMetadata shelf = Object metadata
         \<and> map fst metadata = [''10-a'', ''20-b'', ''25-x'', ''30-c'']
         \<and> length shelfListing
             = length (filter (\<lambda>(i, m). existsSync shelf (getDiagramPath i)) metadata)"
    by (intro exI [of _ metadata] conjI)
  with list_shelf sorted missing show ?thesis
    by (simp add: shelfListing_def)
qed

text \<open>
  Claim C6. When \<open>rename\<close> succeeds on an existing document (one with an entry of its own in
  the metadata index), the document it returns is the document \<open>getById\<close> gave before with
  the name replaced and the update time set to the clock reading: content, creation time,
  prompt and identifier are as before. \<open>getById\<close> gives that document afterwards, and its
  content is what the content file holds. In the metadata index the entry of the document
  has the new name and update time and is otherwise as before; the index has the same keys
  in the same order and every other entry is unchanged, so \<open>getById\<close> of every other
  identifier gives what it gave before. No file other than the metadata index has been
  written: the versions and the version index of every document are unchanged.
\<close>

theorem rename_changes_name_only:
  assumes ok: "rename w i x = Inr (d, w')"
      and lm: "loadMetadata w = Object metadata"
      and own: "map_of metadata i = Some entry"
  shows "\<exists>d0 metadata'. getById w i = Inr (Some d0)
           \<and> d = d0\<lparr>d_name := Some x, d_updatedAt := Some (fst (Date_now w))\<rparr>
           \<and> getById w' i = Inr (Some d)
           \<and> readFileSync w' (getDiagramPath i) = Inr (d_content d)
           \<and> loadMetadata w' = Object metadata'
           \<and> metadata' = AList.update i
                 (entry\<lparr>dm_name := Some x, dm_updatedAt := fst (Date_now w)\<rparr>) metadata
           \<and> map fst metadata' = map fst metadata
           \<and> (\<forall>j. j \<noteq> i \<longrightarrow> map_of metadata' j = map_of metadata j)
           \<and> (\<forall>j. j \<noteq> i \<longrightarrow> getById w' j = getById w j)
           \<and> (\<forall>j. listVersions w' j = listVersions w j
                    \<and> loadVersionsMetadata w' j = loadVersionsMetadata w j)
           \<and> (\<forall>p. p \<noteq> getMetadataPath \<longrightarrow> files w' p = files w p)"
proof -
  from ok obtain metadata0 meta now w1 content where
    lm0: "loadMetadata w = Object metadata0" and m: "getProperty metadata0 i = Some meta"
    and n: "Date_now w = (now, w1)"
    and sv: "saveMetadata w1 (assign metadata0 i ((spread meta now)\<lparr>dm_name := Some x\<rparr>)) = Inr w'"
    and rd: "readFileSync w' (getDiagramPath i) = Inr content"
    and d: "d = \<lparr>d_id = i, d_name = Some x, d_content = content, d_prompt = prompt_of meta,
          d_createdAt = createdAt_of meta, d_updatedAt = Some now\<rparr>"
    by (rule rename_steps)
  have mm: "metadata0 = metadata" using lm lm0 by simp
  have meta: "meta = Entry entry"
    using m own mm by (simp add: getProperty_def)
  have now: "now = fst (Date_now w)" using n by simp
  let ?e = "entry\<lparr>dm_name := Some x, dm_updatedAt := fst (Date_now w)\<rparr>"
  let ?metadata' = "AList.update i ?e metadata"
  have "(spread meta now)\<lparr>dm_name := Some x\<rparr> = ?e"
    using meta now by (cases entry) simp
  then have as: "assign metadata0 i ((spread meta now)\<lparr>dm_name := Some x\<rparr>) = ?metadata'"
    using own mm by (simp add: assign_update)
  note n' = Date_now_effect [OF n]
    and sv' = writeFileSync_effect [OF sv [unfolded saveMetadata_def]]
  have f: "files w' = (files w)(getMetadataPath \<mapsto> Json (Object ?metadata'))"
    using n' sv' as by simp
  have frame: "\<forall>p. p \<noteq> getMetadataPath \<longrightarrow> files w' p = files w p"
    using f by simp
  have lm': "loadMetadata w' = Object ?metadata'"
    using f by (simp add: loadMetadata_def existsSync_def)
  have "(i, entry) \<in> set metadata"
    using own by (rule map_of_SomeD)
  then have "i \<in> fst ` set metadata"
    by (rule image_eqI [rotated]) simp
  then have keys: "map fst ?metadata' = map fst metadata"
    by (simp add: update_keys)
  have others: "\<forall>j. j \<noteq> i \<longrightarrow> map_of ?metadata' j = map_of metadata j"
    by (simp add: update_conv')
  have cf: "files w' (getDiagramPath i) = files w (getDiagramPath i)"
    using f by simp
  have ex: "existsSync w' p = existsSync w p" if "p \<noteq> getMetadataPath" for p
    using f that by (simp add: existsSync_def)
  have rdp: "readFileSync w' p = readFileSync w p" if "p \<noteq> getMetadataPath" for p
    using f that by (simp add: readFileSync_def)
  let ?d0 = "materialize i (Entry entry) content"
  have exi: "existsSync w (getDiagramPath i)"
    using rd rdp [of "getDiagramPath i"]
    by (auto simp: readFileSync_def existsSync_def split: option.splits)
  have g0: "getById w i = Inr (Some ?d0)"
    using lm own rd rdp [of "getDiagramPath i"] exi
    by (simp add: getById_def getProperty_def)
  have dd: "d = ?d0\<lparr>d_name := Some x, d_updatedAt := Some (fst (Date_now w))\<rparr>"
    using d now meta by (simp add: materialize_def)
  have gp': "getProperty ?metadata' i = Some (Entry ?e)"
    by (simp add: getProperty_def update_conv')
  have g': "getById w' i = Inr (Some d)"
    using lm' gp' rd exi ex [of "getDiagramPath i"] d meta now
    by (simp add: getById_def materialize_def)
  have rd': "readFileSync w' (getDiagramPath i) = Inr (d_content d)"
    using rd d by simp
  have gothers: "getById w' j = getById w j" if "j \<noteq> i" for j
  proof -
    have "getProperty ?metadata' j = getProperty metadata j"
      using that by (simp add: getProperty_def update_conv')
    then show ?thesis
      using lm lm' ex [of "getDiagramPath j"] rdp [of "getDiagramPath j"]
      by (simp add: getById_def cong: option.case_cong if_cong)
  qed
  have vers: "listVersions w' j = listVersions w j
      \<and> loadVersionsMetadata w' j = loadVersionsMetadata w j" for j
  proof -
    have lvm: "loadVersionsMetadata w' j = loadVersionsMetadata w j"
      using f by (intro loadVersionsMetadata_files) simp
    have "collectVersions w' j vs = collectVersions w j vs" for vs
      using f by (intro collectVersions_files) simp
    then show ?thesis
      using lvm by (simp add: listVersions_def cong: json.case_cong)
  qed
  have "getById w i = Inr (Some ?d0)
           \<and> d = ?d0\<lparr>d_name := Some x, d_updatedAt := Some (fst (Date_now w))\<rparr>
           \<and> getById w' i = Inr (Some d)
           \<and> readFileSync w' (getDiagramPath i) = Inr (d_content d)
           \<and> loadMetadata w' = Object ?metadata'
           \<and> ?metadata' = AList.update i ?e metadata
           \<and> map fst ?metadata' = map fst metadata
           \<and> (\<forall>j. j \<noteq> i \<longrightarrow> map_of ?metadata' j = map_of metadata j)
           \<and> (\<forall>j. j \<noteq> i \<longrightarrow> getById w' j = getById w j)
           \<and> (\<forall>j. listVersions w' j = listVersions w j
                    \<and> loadVersionsMetadata w' j = loadVersionsMetadata w j)
           \<and> (\<forall>p. p \<noteq> getMetadataPath \<longrightarrow> files w' p = files w p)"
    using g0 dd g' rd' lm' keys others gothers vers frame by simp
  then show ?thesis by (intro exI)
qed

theorem rename_changes_name_only_witness:
  "rename shelf ''20-b'' (str ''timeline'') = Inr (relabelledDoc, relabelledShelf)
   \<and> getById shelf ''20-b''
       = Inr (Some (relabelledDoc\<lparr>d_name := Some (str ''second''), d_updatedAt := Some 33\<rparr>))
   \<and> fst (Date_now shelf) = 1000
   \<and> getById relabelledShelf ''20-b'' = Inr (Some relabelledDoc)
   \<and> readFileSync relabelledShelf (getDiagramPath ''20-b'') = Inr (str ''gantt'')
   \<and> (\<exists>before after. loadMetadata shelf = Object before
         \<and> loadMetadata relabelledShelf = Object after
         \<and> map fst after = [''10-a'', ''20-b'', ''25-x'', ''30-c'']
         \<and> map fst before = [''10-a'', ''20-b'', ''25-x'', ''30-c'']
         \<and> map_of after ''10-a'' = map_of before ''10-a''
         \<and> map_of after ''25-x'' = map_of before ''25-x''
         \<and> map_of after ''30-c'' = map_of before ''30-c'')
   \<and> getById relabelledShelf ''10-a'' = getById shelf ''10-a''
   \<and> getById relabelledShelf ''30-c'' = getById shelf ''30-c''
   \<and> listVersions relabelledShelf ''20-b'' = listVersions shelf ''20-b''
   \<and> files relabelledShelf (getDiagramPath ''20-b'') = files shelf (getDiagramPath ''20-b'')"
proof -
  let ?entry = "\<lparr>dm_id = Some ''20-b'', dm_name = Some (str ''second''), dm_prompt = None,
                 dm_createdAt = Some 20, dm_updatedAt = 33\<rparr>"
  let ?before = "[(''10-a'', \<lparr>dm_id = Some ''10-a'', dm_name = Some (str ''first''), dm_prompt = None,
                 dm_createdAt = Some 10, dm_updatedAt = 11\<rparr>),
      (''20-b'', ?entry),
      (''25-x'', \<lparr>dm_id = Some ''25-x'', dm_name = Some (str ''orphan''), dm_prompt = None,
                 dm_createdAt = Some 25, dm_updatedAt = 44\<rparr>),
      (''30-c'', \<lparr>dm_id = Some ''30-c'', dm_name = Some (str ''third''), dm_prompt = None,
                 dm_createdAt = Some 30, dm_updatedAt = 22\<rparr>)]"
  have own: "map_of ?before ''20-b'' = Some ?entry"
    by simp
  have t: "fst (Date_now shelf) = 1000"
    by (simp add: Date_now_def shelf_def)
  have keys: "map fst ?before = [''10-a'', ''20-b'', ''25-x'', ''30-c'']"
    by simp
  from rename_changes_name_only [OF rename_shelf meta_shelf own]
  obtain d0 after where
    g0: "getById shelf ''20-b'' = Inr (Some d0)"
    and dd: "relabelledDoc = d0\<lparr>d_name := Some (str ''timeline''),
        d_updatedAt := Some (fst (Date_now shelf))\<rparr>"
    and g1: "getById relabelledShelf ''20-b'' = Inr (Some relabelledDoc)"
    and rd: "readFileSync relabelledShelf (getDiagramPath ''20-b'') = Inr (d_content relabelledDoc)"
    and lm: "loadMetadata relabelledShelf = Object after"
    and ks: "map fst after = map fst ?before"
    and others: "\<forall>j. j \<noteq> ''20-b'' \<longrightarrow> map_of after j = map_of ?before j"
    and gothers: "\<forall>j. j \<noteq> ''20-b'' \<longrightarrow> getById relabelledShelf j = getById shelf j"
    and vers: "\<forall>j. listVersions relabelledShelf j = listVersions shelf j
        \<and> loadVersionsMetadata relabelledShelf j = loadVersionsMetadata shelf j"
    and frame: "\<forall>p. p \<noteq> getMetadataPath \<longrightarrow> files relabelledShelf p = files shelf p"
    by blast
  have d0: "getById shelf ''20-b''
       = Inr (Some (relabelledDoc\<lparr>d_name := Some (str ''second''), d_updatedAt := Some 33\<rparr>))"
    by (simp add: store_eval shelf_def relabelledDoc_def)
  have index: "\<exists>before after. loadMetadata shelf = Object before
         \<and> loadMetadata relabelledShelf = Object after
         \<and> map fst after = [''10-a'', ''20-b'', ''25-x'', ''30-c'']
         \<and> map fst before = [''10-a'', ''20-b'', ''25-x'', ''30-c'']
         \<and> map_of after ''10-a'' = map_of before ''10-a''
         \<and> map_of after ''25-x'' = map_of before ''25-x''
         \<and> map_of after ''30-c'' = map_of before ''30-c''"
  proof (intro exI conjI)
    show "loadMetadata shelf = Object ?before" by (rule meta_shelf)
    show "loadMetadata relabelledShelf = Object after" by (rule lm)
    show "map fst after = [''10-a'', ''20-b'', ''25-x'', ''30-c'']" using ks keys by simp
    show "map fst ?before = [''10-a'', ''20-b'', ''25-x'', ''30-c'']" by (rule keys)
    show "map_of after ''10-a'' = map_of ?before ''10-a''" using others by simp
    show "map_of after ''25-x'' = map_of ?before ''25-x''" using others by simp
    show "map_of after ''30-c'' = map_of ?before ''30-c''" using others by simp
  qed
  have a: "getById relabelledShelf ''10-a'' = getById shelf ''10-a''"
    using gothers by simp
  have c: "getById relabelledShelf ''30-c'' = getById shelf ''30-c''"
    using gothers by simp
  have v: "listVersions relabelledShelf ''20-b'' = listVersions shelf ''20-b''"
    using vers by simp
  have f: "files relabelledShelf (getDiagramPath ''20-b'') = files shelf (getDiagramPath ''20-b'')"
    using frame by simp
  have r: "readFileSync relabelledShelf (getDiagramPath ''20-b'') = Inr (str ''gantt'')"
    using rd by (simp add: relabelledDoc_def)
  from rename_shelf d0 t g1 r index a c v f show ?thesis
    by simp
qed




text \<open>
  Claim C8. Let the client be configured and the provider answer the request. When the answer
  is text between an opening fence (\<open>```mermaid\<close>, or \<open>```\<close> not followed by \<open>mermaid\<close>) and a
  closing fence \<open>```\<close>, with white space around, \<open>generateMermaidDiagram\<close> succeeds with the
  text between the fences, trimmed. When the answer is missing, empty or white space only, it
  returns the failure envelope with the message "Empty diagram content returned" and the
  code of the operation.
\<close>

theorem generate_strips_fences:
  assumes client: "getClient os svc = Inr apiKey"
      and answer: "chat (diagramRequest apiKey (getOpenAIModel svc) prompt existing) = Inr response"
  shows "(\<forall>ws1 body ws2.
            list_all isWhiteSpace ws1 \<and> list_all isWhiteSpace ws2
            \<and> response = Some (ws1 @ ''```mermaid'' @ body @ ''```'' @ ws2) \<longrightarrow>
              generateMermaidDiagram os svc chat prompt existing = Success (trim body))
       \<and> (\<forall>ws1 body ws2.
            list_all isWhiteSpace ws1 \<and> list_all isWhiteSpace ws2
            \<and> \<not> startsWith body ''mermaid''
            \<and> response = Some (ws1 @ ''```'' @ body @ ''```'' @ ws2) \<longrightarrow>
              generateMermaidDiagram os svc chat prompt existing = Success (trim body))
       \<and> (response = None \<or> (\<exists>s. response = Some s \<and> list_all isWhiteSpace s) \<longrightarrow>
            (\<exists>msg. generateMermaidDiagram os svc chat prompt existing
                      = Failure msg ''DIAGRAM_GENERATION_FAILED''
                    \<and> msg = ''Empty diagram content returned'' \<and> msg \<noteq> []))"
proof (intro conjI allI impI)
  fix ws1 body ws2
  assume a: "list_all isWhiteSpace ws1 \<and> list_all isWhiteSpace ws2
            \<and> response = Some (ws1 @ ''```mermaid'' @ body @ ''```'' @ ws2)"
  then have w1: "list_all isWhiteSpace ws1" and w2: "list_all isWhiteSpace ws2" by simp_all
  from trim_fenced_nonempty [OF w1 w2, of "''mermaid'' @ body"]
  have ne: "ws1 @ ''```mermaid'' @ body @ ''```'' @ ws2 \<noteq> []
       \<and> length (trim (ws1 @ ''```mermaid'' @ body @ ''```'' @ ws2)) \<noteq> 0"
    by simp
  show "generateMermaidDiagram os svc chat prompt existing = Success (trim body)"
    using client answer a ne stripFences_mermaid [OF w1 w2, of body]
    by (simp add: generateMermaidDiagram_def)
next
  fix ws1 body ws2
  assume a: "list_all isWhiteSpace ws1 \<and> list_all isWhiteSpace ws2
            \<and> \<not> startsWith body ''mermaid''
            \<and> response = Some (ws1 @ ''```'' @ body @ ''```'' @ ws2)"
  then have w1: "list_all isWhiteSpace ws1" and w2: "list_all isWhiteSpace ws2"
    and nm: "\<not> startsWith body ''mermaid''" by simp_all
  note ne = trim_fenced_nonempty [OF w1 w2, of body]
  show "generateMermaidDiagram os svc chat prompt existing = Success (trim body)"
    using client answer a ne stripFences_plain [OF w1 w2 nm]
    by (simp add: generateMermaidDiagram_def)
next
  assume "response = None \<or> (\<exists>s. response = Some s \<and> list_all isWhiteSpace s)"
  then have "generateMermaidDiagram os svc chat prompt existing
      = Failure ''Empty diagram content returned'' ''DIAGRAM_GENERATION_FAILED''"
    using client answer
    by (auto simp: generateMermaidDiagram_def caught_def trim_all_white)
  then show "\<exists>msg. generateMermaidDiagram os svc chat prompt existing
                      = Failure msg ''DIAGRAM_GENERATION_FAILED''
                    \<and> msg = ''Empty diagram content returned'' \<and> msg \<noteq> []"
    by simp
qed

theorem generate_strips_fences_witness:
  "getClient examplePlatform securedSettings = Inr ''sk-1''
   \<and> generateMermaidDiagram examplePlatform securedSettings fencedProvider ''a flow'' None
       = Success ''graph TD''
   \<and> generateMermaidDiagram examplePlatform securedSettings silentProvider ''a flow'' None
       = Failure ''Empty diagram content returned'' ''DIAGRAM_GENERATION_FAILED''"
proof -
  have client: "getClient examplePlatform securedSettings = Inr ''sk-1''"
    by code_simp
  have fenced: "fencedProvider (diagramRequest ''sk-1'' (getOpenAIModel securedSettings) ''a flow'' None)
      = Inr (Some fencedAnswer)"
    by (simp add: fencedProvider_def)
  have silent: "silentProvider (diagramRequest ''sk-1'' (getOpenAIModel securedSettings) ''a flow'' None)
      = Inr None"
    by (simp add: silentProvider_def)
  have shape: "list_all isWhiteSpace ''  '' \<and> list_all isWhiteSpace newline
      \<and> Some fencedAnswer
          = Some (''  '' @ ''```mermaid'' @ (newline @ ''graph TD'' @ newline) @ ''```'' @ newline)"
    by (simp add: isWhiteSpace_def newline_def fencedAnswer_def)
  have trimmed: "trim (newline @ ''graph TD'' @ newline) = ''graph TD''"
    by code_simp
  from generate_strips_fences [where chat = fencedProvider, OF client fenced] shape
  have "generateMermaidDiagram examplePlatform securedSettings fencedProvider ''a flow'' None
      = Success (trim (newline @ ''graph TD'' @ newline))"
    by blast
  moreover from generate_strips_fences [where chat = silentProvider, OF client silent]
  have "generateMermaidDiagram examplePlatform securedSettings silentProvider ''a flow'' None
      = Failure ''Empty diagram content returned'' ''DIAGRAM_GENERATION_FAILED''"
    by blast
  ultimately show ?thesis
    using client trimmed by simp
qed


text \<open>
  Claim C9. With encryption available, a secret that the primitive encrypts and decrypts
  back, and a successful \<open>setOpenAIApiKey\<close>: \<open>getOpenAIApiKey\<close> returns the secret, the legacy
  plaintext key is absent from the settings, the base64 text of the ciphertext is stored
  under the encrypted key, every other setting is as before, and the settings are written
  to the settings file. The stored text is read with \<^verbatim>\<open>this.settings[key] || null\<close>, so it has to
  be non-empty: it is for every ciphertext that is not the empty buffer. The application
  sets a key only when it is not empty (both settings dialogs save it under
  \<^verbatim>\<open>if (apiKey.trim())\<close>).
\<close>

theorem setKey_then_getKey:
  assumes avail: "isEncryptionAvailable os"
      and enc: "encryptString os s = Some ct"
      and dec: "decryptString os (fromBase64 os (toBase64 os ct)) = Some s"
      and nonempty: "toBase64 os ct \<noteq> []"
      and setOk: "setOpenAIApiKey os svc s = Inr svc'"
  shows "getOpenAIApiKey os svc' = Some s
       \<and> map_of (settings svc') ''openai_api_key'' = None
       \<and> map_of (settings svc') ''openai_api_key_encrypted'' = Some (toBase64 os ct)
       \<and> (\<forall>key. key \<noteq> ''openai_api_key'' \<and> key \<noteq> ''openai_api_key_encrypted'' \<longrightarrow>
             map_of (settings svc') key = map_of (settings svc) key)
       \<and> settingsFile svc' = Some (settings svc')"
proof -
  from setOk avail enc obtain svc1 where
    s1: "settings_set svc ''openai_api_key_encrypted'' (toBase64 os ct) = Inr svc1"
    and s2: "settings_delete svc1 ''openai_api_key'' = Inr svc'"
    by (auto simp: setOpenAIApiKey_def split: sum.splits)
  note a = settings_set_Inr [OF s1] and b = settings_delete_Inr [OF s2]
  have legacy: "map_of (settings svc') ''openai_api_key'' = None"
    using b by (simp add: delete_conv')
  have stored: "map_of (settings svc') ''openai_api_key_encrypted'' = Some (toBase64 os ct)"
    using a b by (simp add: delete_conv' update_conv')
  have others: "\<forall>key. key \<noteq> ''openai_api_key'' \<and> key \<noteq> ''openai_api_key_encrypted'' \<longrightarrow>
             map_of (settings svc') key = map_of (settings svc) key"
    using a b by (simp add: delete_conv' update_conv')
  have saved: "settingsFile svc' = Some (settings svc')"
    using b by simp
  have "getOpenAIApiKey os svc' = Some s"
    using nonempty stored avail dec by (simp add: getOpenAIApiKey_def settings_get_def)
  with legacy stored others saved show ?thesis by blast
qed

theorem setKey_then_getKey_witness:
  "isEncryptionAvailable examplePlatform
   \<and> encryptString examplePlatform ''sk-1'' = Some ''v101-ks''
   \<and> toBase64 examplePlatform ''v101-ks'' = ''djEwMS1rcw==''
   \<and> decryptString examplePlatform (fromBase64 examplePlatform ''djEwMS1rcw=='') = Some ''sk-1''
   \<and> setOpenAIApiKey examplePlatform legacySettings ''sk-1'' = Inr securedSettings
   \<and> getOpenAIApiKey examplePlatform securedSettings = Some ''sk-1''
   \<and> map_of (settings securedSettings) ''openai_api_key'' = None
   \<and> map_of (settings legacySettings) ''openai_api_key'' = Some ''sk-old''
   \<and> map_of (settings securedSettings) ''openai_api_key_encrypted'' = Some ''djEwMS1rcw==''
   \<and> map_of (settings securedSettings) ''openai_model'' = Some ''gpt-4o''"
proof -
  have avail: "isEncryptionAvailable examplePlatform"
    by (simp add: examplePlatform_def)
  have enc: "encryptString examplePlatform ''sk-1'' = Some ''v101-ks''"
    by (simp add: examplePlatform_def)
  have b64: "toBase64 examplePlatform ''v101-ks'' = ''djEwMS1rcw==''"
    by code_simp
  have dec: "decryptString examplePlatform
      (fromBase64 examplePlatform (toBase64 examplePlatform ''v101-ks'')) = Some ''sk-1''"
    by code_simp
  have nonempty: "toBase64 examplePlatform ''v101-ks'' \<noteq> []"
    using b64 by simp
  have old: "map_of (settings legacySettings) ''openai_api_key'' = Some ''sk-old''"
    by (simp add: legacySettings_def)
  have model: "map_of (settings legacySettings) ''openai_model'' = Some ''gpt-4o''"
    by (simp add: legacySettings_def)
  from setKey_then_getKey [OF avail enc dec nonempty set_key_example] b64 model
  have "getOpenAIApiKey examplePlatform securedSettings = Some ''sk-1''
      \<and> map_of (settings securedSettings) ''openai_api_key'' = None
      \<and> map_of (settings securedSettings) ''openai_api_key_encrypted'' = Some ''djEwMS1rcw==''
      \<and> map_of (settings securedSettings) ''openai_model'' = Some ''gpt-4o''"
    by simp
  with avail enc b64 dec set_key_example old show ?thesis by simp
qed

text \<open>
  Claim C10. The version that \<open>update\<close> appends records the prompt argument as it was
  passed. When the argument is omitted the new version has no prompt, while the document
  keeps its previous prompt in the index and in the returned document; the two differ
  whenever the document had a prompt.
\<close>

theorem update_version_prompt:
  assumes ok: "update w i c p = Inr (d, w')"
      and lm: "loadMetadata w = Object metadata"
      and meta: "map_of metadata i = Some meta"
  shows "\<exists>vs nv metadata'. loadVersionsMetadata w i = Array vs
       \<and> loadVersionsMetadata w' i = Array (vs @ [nv]) \<and> vm_prompt nv = p
       \<and> loadMetadata w' = Object metadata'
       \<and> (p = None \<longrightarrow>
             vm_prompt nv = None
             \<and> map_option dm_prompt (map_of metadata' i) = Some (dm_prompt meta)
             \<and> d_prompt d = dm_prompt meta
             \<and> (dm_prompt meta \<noteq> None \<longrightarrow> vm_prompt nv \<noteq> d_prompt d))"
proof -
  let ?nv = "\<lparr>vm_id = fst (generateId (snd (Date_now w))), vm_diagramId = i, vm_prompt = p,
                vm_createdAt = clock w (Suc (Suc (ticks w)))\<rparr>"
  let ?metadata' = "AList.update i
      (meta\<lparr>dm_prompt := nullish p (dm_prompt meta), dm_updatedAt := clock w (ticks w)\<rparr>) metadata"
  note d = update_read_back(2) [OF ok lm meta] and lm' = update_read_back(3) [OF ok lm meta]
  from update_versions [OF ok] obtain vs where
    lv: "loadVersionsMetadata w i = Array vs"
    and lv': "loadVersionsMetadata w' i = Array (vs @ [?nv])"
    by blast
  have stored: "map_option dm_prompt (map_of ?metadata' i) = Some (nullish p (dm_prompt meta))"
    by (simp add: update_conv')
  have "loadVersionsMetadata w i = Array vs
       \<and> loadVersionsMetadata w' i = Array (vs @ [?nv]) \<and> vm_prompt ?nv = p
       \<and> loadMetadata w' = Object ?metadata'
       \<and> (p = None \<longrightarrow>
             vm_prompt ?nv = None
             \<and> map_option dm_prompt (map_of ?metadata' i) = Some (dm_prompt meta)
             \<and> d_prompt d = dm_prompt meta
             \<and> (dm_prompt meta \<noteq> None \<longrightarrow> vm_prompt ?nv \<noteq> d_prompt d))"
    using lv lv' lm' stored d by (auto simp: nullish_def)
  then show ?thesis by (intro exI)
qed

theorem update_version_prompt_witness:
  "update flowStore2 ''1000-r0'' (str ''graph BT'') None = Inr (flowDoc3, flowStore3)
   \<and> (\<exists>vs nv. loadVersionsMetadata flowStore2 ''1000-r0'' = Array vs
         \<and> loadVersionsMetadata flowStore3 ''1000-r0'' = Array (vs @ [nv])
         \<and> vm_prompt nv = None \<and> d_prompt flowDoc3 = Some (str ''make it LR'')
         \<and> vm_prompt nv \<noteq> d_prompt flowDoc3)"
proof -
  have own: "map_of [(''1000-r0'',
     \<lparr>dm_id = Some ''1000-r0'', dm_name = Some (str ''Flow''),
      dm_prompt = Some (str ''make it LR''), dm_createdAt = Some 1001, dm_updatedAt = 1004\<rparr>)]
      ''1000-r0'' = Some \<lparr>dm_id = Some ''1000-r0'', dm_name = Some (str ''Flow''),
      dm_prompt = Some (str ''make it LR''), dm_createdAt = Some 1001, dm_updatedAt = 1004\<rparr>"
    by simp
  from update_version_prompt [OF update_flow2 meta_flow2 own] update_flow2
  show ?thesis
    by (auto simp: flowDoc3_def)
qed

end
